theory Spec2Isabelle
  imports Main "HOL-Library.Sublist"
begin

section \<open>Python values, exceptions and the transcript\<close>

text \<open>
  The reasoner of \<^verbatim>\<open>structured_procedure_follower.py\<close> is dynamically typed: a
  message content is whatever the provider returned, and the decoded arguments of a
  function call are JSON data. Values are therefore one datatype. A dictionary is an
  association list in insertion order (\<^verbatim>\<open>popitem\<close> takes the last pair), a
  model instance is its class name with its \<^verbatim>\<open>__dict__\<close>. Strings are lists of code
  points below 256; floating point numbers are left out.
\<close>

datatype pyval =
    PNone
  | PBool bool
  | PInt int
  | PStr string
  | PList "pyval list"
  | PDict "(string \<times> pyval) list"
  | PObj string "(string \<times> pyval) list"

text \<open>
  Every exception the code can end with. \<open>ProviderError\<close> is whatever
  \<^verbatim>\<open>chatgpt.complete\<close> raised, and \<open>LibraryError\<close> whatever a library routine
  that is not modelled raised; both are opaque and pass through unchanged.
\<close>

datatype py_error =
    AssertionError string
  | Exception string
  | ValueError
  | KeyError string
  | IndexError
  | TypeError
  | AttributeError
  | ProviderError string
  | LibraryError string

text \<open>Truth value of an object, as \<^verbatim>\<open>if name:\<close> tests it.\<close>

fun truthy :: "pyval \<Rightarrow> bool" where
  "truthy PNone = False"
| "truthy (PBool b) = b"
| "truthy (PInt i) = (i \<noteq> 0)"
| "truthy (PStr s) = (s \<noteq> [])"
| "truthy (PList xs) = (xs \<noteq> [])"
| "truthy (PDict d) = (d \<noteq> [])"
| "truthy (PObj c d) = True"

text \<open>
  A message is the dictionary \<^verbatim>\<open>{'role': .., 'content': ..}\<close> with an optional
  \<^verbatim>\<open>'name'\<close> key.
\<close>

record message =
  role :: string
  content :: pyval
  name :: "pyval option"

text \<open>The keyword arguments of one call of \<^verbatim>\<open>chatgpt.complete\<close>.\<close>

record request =
  rq_messages :: "message list"
  rq_model :: string
  rq_functions :: "pyval list option"
  rq_function_call :: "pyval option"
  rq_use_cache :: "bool option"

text \<open>
  The \<^verbatim>\<open>Reasoner\<close> object (\<open>is_internal\<close> is \<^verbatim>\<open>_is_internal\<close>), together with
  the log of the requests sent to the provider so far. The log is not a field of the
  Python object: it records the calls of \<^verbatim>\<open>chatgpt.complete\<close>, so that "no provider
  call was made" is a statement about the state.
\<close>

record reasoner =
  model :: string
  messages :: "message list"
  is_internal :: bool
  provider_calls :: "request list"

text \<open>
  The provider \<^verbatim>\<open>chatgpt.complete\<close> is not part of the file. It is a parameter: a
  function of the requests made before and of the current request, which raises
  (\<open>Inl\<close>) or returns a value. The result type of every operation pairs the outcome
  with the state at the moment of return or raise, since an exception leaves the
  mutations made before it in place.
\<close>

type_synonym provider = "request list \<Rightarrow> request \<Rightarrow> string + pyval"

type_synonym 'a outcome = "(py_error + 'a) \<times> reasoner"

definition complete :: "provider \<Rightarrow> request \<Rightarrow> reasoner \<Rightarrow> pyval outcome" where
  "complete p rq s =
     (case p (provider_calls s) rq of
        Inl e \<Rightarrow> Inl (ProviderError e)
      | Inr r \<Rightarrow> Inr r,
      s\<lparr>provider_calls := provider_calls s @ [rq]\<rparr>)"

section \<open>The dialogue state: class Reasoner\<close>

definition init :: "string option \<Rightarrow> string \<Rightarrow> reasoner" where
  "init system_prompt mdl =
     \<lparr>model = mdl,
      messages =
        (case system_prompt of
           None \<Rightarrow> []
         | Some p \<Rightarrow>
             if p \<noteq> [] then [\<lparr>role = ''system'', content = PStr p, name = None\<rparr>] else []),
      is_internal = False,
      provider_calls = []\<rparr>"

text \<open>\<^verbatim>\<open>add_message(role, message, name=None)\<close>; a call without name passes \<open>PNone\<close>.\<close>

definition add_message :: "string \<Rightarrow> pyval \<Rightarrow> pyval \<Rightarrow> reasoner \<Rightarrow> reasoner" where
  "add_message r m n s =
     s\<lparr>messages := messages s @
          [\<lparr>role = r, content = m, name = (if truthy n then Some n else None)\<rparr>]\<rparr>"

definition exit_announcement :: string where
  "exit_announcement =
     ''[Internal Monologue]: I am now entering the external dialogue state. Everything I say there will be seen.''"

definition enter_announcement :: string where
  "enter_announcement =
     ''[Internal Monologue]: I am now in the internal monologue state. I won'' @ [CHR 0x27] @
     ''t be able to respond here, so I'' @ [CHR 0x27] @
     ''ll use this space to think, reflect, and plan.''"

text \<open>
  \<^verbatim>\<open>str.replace(old, new)\<close>: every occurrence of \<open>old\<close>, found from the left and
  without overlap, is replaced; an empty \<open>old\<close> matches before every character and at
  the end.
\<close>

function replace :: "string \<Rightarrow> string \<Rightarrow> string \<Rightarrow> string" where
  "replace [] old new = (if old = [] then new else [])"
| "replace (c # cs) old new =
     (if old = [] then new @ c # replace cs old new
      else if prefix old (c # cs) then new @ replace (drop (length old) (c # cs)) old new
      else c # replace cs old new)"
  by pat_completeness auto
termination
  by (relation "measure (\<lambda>(s, old, new). length s)") (auto simp: neq_Nil_conv)

text \<open>
  Both dialogue operations append their messages, then call the provider, then append
  the response. The state reached before the call and the request sent are named, so
  that statements can speak of them.
\<close>

text \<open>Lines 26 to 30.\<close>

definition external_dialogue_begin :: "string \<Rightarrow> reasoner \<Rightarrow> reasoner" where
  "external_dialogue_begin thought s =
     (let s1 = add_message ''assistant'' (PStr (''[Internal Monologue]: '' @ thought)) PNone s
      in if is_internal s1
         then add_message ''function'' (PStr ''[Exited Internal Monologue]'')
                (PStr ''exit_monologue'')
                (add_message ''assistant'' (PStr exit_announcement) PNone
                   (s1\<lparr>is_internal := False\<rparr>))
         else s1)"

definition external_request :: "string \<Rightarrow> reasoner \<Rightarrow> request" where
  "external_request thought s =
     \<lparr>rq_messages = messages (external_dialogue_begin thought s),
      rq_model = model (external_dialogue_begin thought s),
      rq_functions = None, rq_function_call = None, rq_use_cache = None\<rparr>"

text \<open>Lines 31 to 33.\<close>

definition external_dialogue :: "provider \<Rightarrow> string \<Rightarrow> reasoner \<Rightarrow> pyval outcome" where
  "external_dialogue p thought s =
     (let (r, s3) = complete p (external_request thought s) (external_dialogue_begin thought s)
      in case r of
           Inl e \<Rightarrow> (Inl e, s3)
         | Inr response \<Rightarrow> (Inr response, add_message ''assistant'' response PNone s3))"

text \<open>Lines 36 to 40.\<close>

definition internal_monologue_begin :: "string \<Rightarrow> reasoner \<Rightarrow> reasoner" where
  "internal_monologue_begin thought s =
     (let s1 = (if \<not> is_internal s
                then add_message ''assistant'' (PStr enter_announcement) PNone
                       (add_message ''function'' (PStr ''[Entered Internal Monologue]'')
                          (PStr ''enter_monologue'')
                          (s\<lparr>is_internal := True\<rparr>))
                else s)
      in add_message ''assistant'' (PStr (''[Internal Monologue]: '' @ thought)) PNone s1)"

definition internal_request :: "string \<Rightarrow> reasoner \<Rightarrow> request" where
  "internal_request thought s =
     \<lparr>rq_messages = messages (internal_monologue_begin thought s),
      rq_model = model (internal_monologue_begin thought s),
      rq_functions = None, rq_function_call = None, rq_use_cache = Some True\<rparr>"

text \<open>
  Lines 41 to 44. \<^verbatim>\<open>response.replace\<close> exists on strings only: any other response
  ends in \<open>AttributeError\<close>, after the messages before the call were appended.
\<close>

definition internal_monologue :: "provider \<Rightarrow> string \<Rightarrow> reasoner \<Rightarrow> pyval outcome" where
  "internal_monologue p thought s =
     (let (r, s3) = complete p (internal_request thought s) (internal_monologue_begin thought s)
      in case r of
           Inl e \<Rightarrow> (Inl e, s3)
         | Inr response \<Rightarrow>
             (case response of
                PStr text \<Rightarrow>
                  (let cleaned = replace text ''[Internal Monologue]: '' ''''
                   in (Inr (PStr cleaned),
                       add_message ''assistant'' (PStr (''[Internal Monologue]: '' @ cleaned))
                         PNone s3))
              | _ \<Rightarrow> (Inl AttributeError, s3)))"

section \<open>Library routines used by the extraction\<close>

text \<open>
  \<^verbatim>\<open>extract_info\<close> calls the standard library (\<^verbatim>\<open>string.Formatter.parse\<close>,
  \<^verbatim>\<open>str.format\<close>) and pydantic. What these do on the inputs the reasoner gives them
  is written out below. The parts that are not (the JSON schema pydantic generates,
  \<^verbatim>\<open>str\<close> of containers and objects, \<^verbatim>\<open>repr\<close>, \<^verbatim>\<open>ascii\<close>, a non-empty format
  specification, attribute and index lookups inside a replacement field) are fields of
  one record of parameters; those that can raise return \<open>Inl\<close> with an opaque message.
\<close>

datatype py_type = TInt | TStr | TBool | TFloat | TEnum string "string list"

text \<open>
  The second argument of \<^verbatim>\<open>extract_info\<close>: a subclass of \<^verbatim>\<open>BaseModel\<close>, given by
  its name and its declared fields with their defaults (\<open>None\<close> for a required field),
  or any other type.
\<close>

datatype output_type =
    Model string "(string \<times> pyval option) list"
  | Plain py_type

record pylib =
  model_json_schema :: "output_type \<Rightarrow> string + pyval"
  single_field_schema :: "string \<Rightarrow> output_type \<Rightarrow> string + pyval"
  str_of_object :: "pyval \<Rightarrow> string"
  repr_of :: "pyval \<Rightarrow> string"
  ascii_of :: "pyval \<Rightarrow> string"
  format_with_spec :: "(string \<times> pyval) list \<Rightarrow> pyval \<Rightarrow> string \<Rightarrow> string + string"
  resolve_accessors :: "pyval \<Rightarrow> string \<Rightarrow> string + pyval"

subsection \<open>Decimal rendering of integers\<close>

definition digit_char :: "nat \<Rightarrow> char" where
  "digit_char d = ''0123456789'' ! d"

function str_nat :: "nat \<Rightarrow> string" where
  "str_nat n = (if n < 10 then [digit_char n] else str_nat (n div 10) @ [digit_char (n mod 10)])"
  by pat_completeness auto
termination
  by (relation "measure id") auto

declare str_nat.simps [simp del]

definition str_int :: "int \<Rightarrow> string" where
  "str_int i = (if i < 0 then CHR ''-'' # str_nat (nat (- i)) else str_nat (nat i))"

text \<open>\<^verbatim>\<open>str(v)\<close>, which is also \<^verbatim>\<open>format(v, '')\<close> for these values.\<close>

fun py_str :: "pylib \<Rightarrow> pyval \<Rightarrow> string" where
  "py_str lib PNone = ''None''"
| "py_str lib (PBool b) = (if b then ''True'' else ''False'')"
| "py_str lib (PInt i) = str_int i"
| "py_str lib (PStr s) = s"
| "py_str lib v = str_of_object lib v"

subsection \<open>Format strings\<close>

text \<open>
  One element of \<^verbatim>\<open>Formatter.parse\<close>: the tuple
  \<^verbatim>\<open>(literal_text, field_name, format_spec, conversion)\<close>. A literal without a
  replacement field has \<open>None\<close> in the last three places; a replacement field has a
  field name (possibly empty) and a format specification (possibly empty).
\<close>

record parsed_item =
  literal_text :: string
  field_name :: "string option"
  format_spec :: "string option"
  conversion :: "char option"

text \<open>
  The format specification runs to the closing brace that matches the opening one of
  the field; the counter starts at 1. The end of the string before that is a
  \<open>ValueError\<close>.
\<close>

fun scan_format_spec :: "int \<Rightarrow> string \<Rightarrow> string \<Rightarrow> py_error + (string \<times> string)" where
  "scan_format_spec count acc [] = Inl ValueError"
| "scan_format_spec count acc (c # cs) =
     (if c = CHR ''{'' then scan_format_spec (count + 1) (acc @ [c]) cs
      else if c = CHR ''}'' then
        (if count - 1 = 0 then Inr (acc, cs) else scan_format_spec (count - 1) (acc @ [c]) cs)
      else scan_format_spec count (acc @ [c]) cs)"

text \<open>
  The field name runs to the first \<^verbatim>\<open>}\<close>, \<^verbatim>\<open>:\<close> or \<^verbatim>\<open>!\<close> outside square
  brackets; an opening brace in it, or the end of the string, is a \<open>ValueError\<close>.
  The result is the name, the character that ended it and the rest of the input.
\<close>

function scan_field_name :: "string \<Rightarrow> string \<Rightarrow> py_error + (string \<times> char \<times> string)" where
  "scan_field_name acc [] = Inl ValueError"
| "scan_field_name acc (c # cs) =
     (if c = CHR ''{'' then Inl ValueError
      else if c = CHR ''['' then
        scan_field_name (acc @ c # takeWhile (\<lambda>x. x \<noteq> CHR '']'') cs)
          (dropWhile (\<lambda>x. x \<noteq> CHR '']'') cs)
      else if c = CHR ''}'' \<or> c = CHR '':'' \<or> c = CHR ''!'' then Inr (acc, c, cs)
      else scan_field_name (acc @ [c]) cs)"
  by pat_completeness auto
termination
  by (relation "measure (\<lambda>(acc, s). length s)") (auto simp: length_dropWhile_le less_Suc_eq_le)

text \<open>
  The character after \<^verbatim>\<open>!\<close> is the conversion. The parser keeps it in a character
  variable whose value 0 means that there is none, so a NUL character there is no
  conversion.
\<close>

definition conversion_of :: "char \<Rightarrow> char option" where
  "conversion_of c = (if c = CHR 0x00 then None else Some c)"

definition parse_field :: "string \<Rightarrow> py_error + (string \<times> string \<times> char option \<times> string)" where
  "parse_field s =
     (case scan_field_name [] s of
        Inl e \<Rightarrow> Inl e
      | Inr (fname, c, rest) \<Rightarrow>
          if c = CHR ''}'' then Inr (fname, [], None, rest)
          else if c = CHR ''!'' then
            (case rest of
               [] \<Rightarrow> Inl ValueError
             | conv # rest1 \<Rightarrow>
                 (case rest1 of
                    [] \<Rightarrow> Inl ValueError
                  | c2 # rest2 \<Rightarrow>
                      if c2 = CHR ''}'' then Inr (fname, [], conversion_of conv, rest2)
                      else if c2 \<noteq> CHR '':'' then Inl ValueError
                      else
                        (case scan_format_spec 1 [] rest2 of
                           Inl e \<Rightarrow> Inl e
                         | Inr (spec, rest3) \<Rightarrow> Inr (fname, spec, conversion_of conv, rest3))))
          else
            (case scan_format_spec 1 [] rest of
               Inl e \<Rightarrow> Inl e
             | Inr (spec, rest3) \<Rightarrow> Inr (fname, spec, None, rest3)))"

definition is_brace :: "char \<Rightarrow> bool" where
  "is_brace c = (c = CHR ''{'' \<or> c = CHR ''}'')"

text \<open>
  One step of the iterator both \<^verbatim>\<open>Formatter.parse\<close> and \<^verbatim>\<open>str.format\<close> run on:
  the literal text up to the next brace, then either a doubled brace (an escape, which
  joins the literal) or a replacement field. A lone closing brace and an opening brace
  at the end of the string are \<open>ValueError\<close>s.
\<close>

definition markup_next :: "string \<Rightarrow> py_error + (parsed_item \<times> string) option" where
  "markup_next s =
     (if s = [] then Inr None
      else
        let lit = takeWhile (\<lambda>c. \<not> is_brace c) s;
            rest = dropWhile (\<lambda>c. \<not> is_brace c) s
        in case rest of
             [] \<Rightarrow>
               Inr (Some (\<lparr>literal_text = lit, field_name = None, format_spec = None,
                           conversion = None\<rparr>, []))
           | c # rest1 \<Rightarrow>
               (case rest1 of
                  [] \<Rightarrow> Inl ValueError
                | d # rest2 \<Rightarrow>
                    if c = d then
                      Inr (Some (\<lparr>literal_text = lit @ [c], field_name = None,
                                  format_spec = None, conversion = None\<rparr>, rest2))
                    else if c = CHR ''}'' then Inl ValueError
                    else
                      (case parse_field rest1 of
                         Inl e \<Rightarrow> Inl e
                       | Inr (fname, spec, conv, rest3) \<Rightarrow>
                           Inr (Some (\<lparr>literal_text = lit, field_name = Some fname,
                                       format_spec = Some spec, conversion = conv\<rparr>, rest3)))))"

lemma scan_format_spec_shorter:
  "scan_format_spec n acc s = Inr (spec, rest) \<Longrightarrow> length rest < length s"
  by (induction s arbitrary: n acc) (auto split: if_splits intro: less_SucI)

lemma scan_field_name_shorter:
  "scan_field_name acc s = Inr (f, c, rest) \<Longrightarrow> length rest < length s"
proof (induction acc s rule: scan_field_name.induct)
  case (1 acc)
  then show ?case by simp
next
  case (2 acc c cs)
  have "length (dropWhile (\<lambda>x. x \<noteq> CHR '']'') cs) \<le> length cs"
    by (rule length_dropWhile_le)
  with 2 show ?case
    by (auto split: if_splits simp: less_Suc_eq_le intro: less_imp_le)
qed

lemma parse_field_shorter:
  "parse_field s = Inr (f, sp, cv, rest) \<Longrightarrow> length rest < length s"
  unfolding parse_field_def
  by (auto split: sum.splits if_splits list.splits prod.splits
      dest!: scan_field_name_shorter scan_format_spec_shorter)

lemma markup_next_shorter:
  "markup_next s = Inr (Some (item, rest)) \<Longrightarrow> length rest < length s"
proof -
  assume a: "markup_next s = Inr (Some (item, rest))"
  have le: "length (dropWhile (\<lambda>c. \<not> is_brace c) s) \<le> length s"
    by (rule length_dropWhile_le)
  from a have ne: "s \<noteq> []"
    by (auto simp: markup_next_def)
  from a le ne show ?thesis
    unfolding markup_next_def Let_def
    by (auto split: list.splits if_splits sum.splits prod.splits dest!: parse_field_shorter)
qed

text \<open>\<^verbatim>\<open>Formatter().parse(s)\<close>, consumed to the end as the list comprehension does.\<close>

function parse :: "string \<Rightarrow> py_error + parsed_item list" where
  "parse s =
     (case markup_next s of
        Inl e \<Rightarrow> Inl e
      | Inr None \<Rightarrow> Inr []
      | Inr (Some (item, rest)) \<Rightarrow>
          (case parse rest of
             Inl e \<Rightarrow> Inl e
           | Inr items \<Rightarrow> Inr (item # items)))"
  by pat_completeness auto
termination
  by (relation "measure length") (auto dest: markup_next_shorter)

declare parse.simps [simp del]

text \<open>
  The first part of a field name, up to the first \<^verbatim>\<open>.\<close> or \<^verbatim>\<open>[\<close>, is read
  as an index when it consists of decimal digits: the result is \<open>-1\<close> when it does
  not, and a \<open>ValueError\<close> when the digits overflow \<^verbatim>\<open>Py_ssize_t\<close> (64 bits here).
\<close>

definition PY_SSIZE_T_MAX :: int where
  "PY_SSIZE_T_MAX = 2 ^ 63 - 1"

definition is_decimal :: "char \<Rightarrow> bool" where
  "is_decimal c = (48 \<le> (of_char c :: nat) \<and> (of_char c :: nat) \<le> 57)"

fun get_integer_from :: "int \<Rightarrow> string \<Rightarrow> py_error + int" where
  "get_integer_from accumulator [] = Inr accumulator"
| "get_integer_from accumulator (c # cs) =
     (if \<not> is_decimal c then Inr (- 1)
      else
        let digitval = int (of_char c) - 48
        in if accumulator > (PY_SSIZE_T_MAX - digitval) div 10 then Inl ValueError
           else get_integer_from (accumulator * 10 + digitval) cs)"

definition get_integer :: "string \<Rightarrow> py_error + int" where
  "get_integer s = (if s = [] then Inr (- 1) else get_integer_from 0 s)"

text \<open>
  The object a replacement field names, for \<^verbatim>\<open>template.format(**kwargs)\<close>: there
  are no positional arguments, so an empty or numeric first part is an
  \<open>IndexError\<close>; any other first part is a key of \<open>kwargs\<close>.
\<close>

definition is_accessor_start :: "char \<Rightarrow> bool" where
  "is_accessor_start c = (c = CHR ''.'' \<or> c = CHR ''['')"

definition get_field_object ::
    "pylib \<Rightarrow> (string \<times> pyval) list \<Rightarrow> string \<Rightarrow> py_error + pyval" where
  "get_field_object lib kwargs fname =
     (let first = takeWhile (\<lambda>c. \<not> is_accessor_start c) fname;
          rest = dropWhile (\<lambda>c. \<not> is_accessor_start c) fname
      in case get_integer first of
           Inl e \<Rightarrow> Inl e
         | Inr first_idx \<Rightarrow>
             if first = [] \<or> first_idx \<noteq> - 1 then Inl IndexError
             else
               (case map_of kwargs first of
                  None \<Rightarrow> Inl (KeyError first)
                | Some obj \<Rightarrow>
                    if rest = [] then Inr obj
                    else
                      (case resolve_accessors lib obj rest of
                         Inl m \<Rightarrow> Inl (LibraryError m)
                       | Inr v \<Rightarrow> Inr v)))"

definition do_conversion :: "pylib \<Rightarrow> pyval \<Rightarrow> char option \<Rightarrow> py_error + pyval" where
  "do_conversion lib obj conv =
     (case conv of
        None \<Rightarrow> Inr obj
      | Some c \<Rightarrow>
          if c = CHR ''r'' then Inr (PStr (repr_of lib obj))
          else if c = CHR ''s'' then Inr (PStr (py_str lib obj))
          else if c = CHR ''a'' then Inr (PStr (ascii_of lib obj))
          else Inl ValueError)"

definition render_item ::
    "pylib \<Rightarrow> (string \<times> pyval) list \<Rightarrow> parsed_item \<Rightarrow> py_error + string" where
  "render_item lib kwargs item =
     (case field_name item of
        None \<Rightarrow> Inr []
      | Some fname \<Rightarrow>
          (case get_field_object lib kwargs fname of
             Inl e \<Rightarrow> Inl e
           | Inr obj \<Rightarrow>
               (case do_conversion lib obj (conversion item) of
                  Inl e \<Rightarrow> Inl e
                | Inr obj' \<Rightarrow>
                    (case format_spec item of
                       None \<Rightarrow> Inr (py_str lib obj')
                     | Some spec \<Rightarrow>
                         if spec = [] then Inr (py_str lib obj')
                         else
                           (case format_with_spec lib kwargs obj' spec of
                              Inl m \<Rightarrow> Inl (LibraryError m)
                            | Inr t \<Rightarrow> Inr t)))))"

text \<open>\<^verbatim>\<open>s.format(**kwargs)\<close>: literals and rendered fields, from left to right.\<close>

function format_str :: "pylib \<Rightarrow> string \<Rightarrow> (string \<times> pyval) list \<Rightarrow> py_error + string" where
  "format_str lib s kwargs =
     (case markup_next s of
        Inl e \<Rightarrow> Inl e
      | Inr None \<Rightarrow> Inr []
      | Inr (Some (item, rest)) \<Rightarrow>
          (case render_item lib kwargs item of
             Inl e \<Rightarrow> Inl e
           | Inr txt \<Rightarrow>
               (case format_str lib rest kwargs of
                  Inl e \<Rightarrow> Inl e
                | Inr out \<Rightarrow> Inr (literal_text item @ txt @ out))))"
  by pat_completeness auto
termination
  by (relation "measure (\<lambda>(lib, s, kwargs). length s)") (auto dest: markup_next_shorter)

declare format_str.simps [simp del]

subsection \<open>Dictionaries and pydantic\<close>

text \<open>
  \<^verbatim>\<open>obj[key]\<close> with a string key: a dictionary without the key raises
  \<open>KeyError\<close>, and no other value here can be subscripted with a string.
\<close>

fun subscript :: "pyval \<Rightarrow> string \<Rightarrow> py_error + pyval" where
  "subscript (PDict d) key =
     (case map_of d key of None \<Rightarrow> Inl (KeyError key) | Some v \<Rightarrow> Inr v)"
| "subscript v key = Inl TypeError"

text \<open>\<^verbatim>\<open>d.popitem()[1]\<close>: the value inserted last.\<close>

definition popitem_value :: "(string \<times> pyval) list \<Rightarrow> py_error + pyval" where
  "popitem_value d =
     (if d = [] then Inl (KeyError ''popitem(): dictionary is empty'') else Inr (snd (last d)))"

text \<open>
  \<^verbatim>\<open>type(output_type) is type\<close>. The builtin classes are instances of
  \<^verbatim>\<open>type\<close>. An enumeration class is an instance of \<^verbatim>\<open>EnumMeta\<close>, and
  \<^verbatim>\<open>BaseModel\<close> is declared with the metaclass \<^verbatim>\<open>ModelMetaclass\<close>, which every
  subclass inherits: for those the test is false.
\<close>

fun type_is_type :: "output_type \<Rightarrow> bool" where
  "type_is_type (Model cname flds) = False"
| "type_is_type (Plain (TEnum ename members)) = False"
| "type_is_type (Plain t) = True"

fun issubclass_BaseModel :: "output_type \<Rightarrow> bool" where
  "issubclass_BaseModel (Model cname flds) = True"
| "issubclass_BaseModel (Plain t) = False"

text \<open>
  \<^verbatim>\<open>cls.model_construct(_fields_set=None, **values)\<close> of pydantic 2: the instance
  gets the declared fields found in \<open>values\<close>, then the defaults of the other
  declared fields; a required field without a value stays unset. The first parameter
  only ends up in \<^verbatim>\<open>__pydantic_fields_set__\<close>, which nothing here reads. A class that
  is not a model has no such method.
\<close>

fun model_construct :: "output_type \<Rightarrow> pyval \<Rightarrow> (string \<times> pyval) list \<Rightarrow> py_error + pyval" where
  "model_construct (Model cname flds) fields_set vals =
     Inr (PObj cname
            (List.map_filter
               (\<lambda>(n, dflt). map_option (Pair n) (map_of vals n)) flds @
             List.map_filter
               (\<lambda>(n, dflt). if map_of vals n = None then map_option (Pair n) dflt else None)
               flds))"
| "model_construct (Plain t) fields_set vals = Inl AttributeError"

section \<open>The structured extraction: class StructuredReasoner\<close>

text \<open>The names of the replacement fields: the tuples whose second place is not \<^verbatim>\<open>None\<close>.\<close>

definition parsed_fields :: "parsed_item list \<Rightarrow> string list" where
  "parsed_fields items = List.map_filter field_name items"

definition func_name_of :: "string \<Rightarrow> string" where
  "func_name_of fname = ''remember_'' @ fname"

text \<open>
  Lines 100 to 105: the parameters of the function. Line 104 passes the field name as a
  keyword of \<^verbatim>\<open>create_model\<close>, so a field name that this function reads itself is
  not a field: \<^verbatim>\<open>__base__\<close> is its parameter for the base classes, the pair
  \<^verbatim>\<open>(output_type, ...)\<close> is taken for them and the class creation raises
  \<open>TypeError\<close>; \<^verbatim>\<open>model_config\<close> is the configuration attribute of every model and
  is refused as well. What pydantic generates or raises for any other name is the
  parameter \<open>single_field_schema\<close>. An exception here is raised before line 114.
\<close>

definition create_model_schema :: "pylib \<Rightarrow> string \<Rightarrow> output_type \<Rightarrow> py_error + pyval" where
  "create_model_schema lib fname output_type =
     (if fname = ''__base__'' then Inl TypeError
      else if fname = ''model_config'' then Inl (LibraryError ''model_config'')
      else
        (case single_field_schema lib fname output_type of
           Inl m \<Rightarrow> Inl (LibraryError m)
         | Inr params \<Rightarrow> Inr params))"

definition schema_params :: "pylib \<Rightarrow> string \<Rightarrow> output_type \<Rightarrow> py_error + pyval" where
  "schema_params lib fname output_type =
     (let use_pydantic = (type_is_type output_type \<and> issubclass_BaseModel output_type)
      in if use_pydantic then
           (case model_json_schema lib output_type of
              Inl m \<Rightarrow> Inl (LibraryError m)
            | Inr params \<Rightarrow> Inr params)
         else create_model_schema lib fname output_type)"

text \<open>Lines 107 to 112: the schema of the one function offered to the model.\<close>

definition json_schema_of :: "string \<Rightarrow> string \<Rightarrow> pyval \<Rightarrow> pyval" where
  "json_schema_of info_format fname params =
     PDict [(''name'', PStr (func_name_of fname)),
            (''description'',
               PStr (''This function stores a piece of information in the format: '' @
                     [CHR 0x27] @ info_format @ [CHR 0x27] @ ''.'')),
            (''parameters'', params)]"

text \<open>Line 114: the request, against the transcript as it is.\<close>

definition extract_request :: "string \<Rightarrow> string \<Rightarrow> pyval \<Rightarrow> reasoner \<Rightarrow> request" where
  "extract_request info_format fname params s =
     \<lparr>rq_messages = messages s, rq_model = model s,
      rq_functions = Some [json_schema_of info_format fname params],
      rq_function_call = Some (PDict [(''name'', PStr (func_name_of fname))]),
      rq_use_cache = Some True\<rparr>"

text \<open>
  Lines 118 to 126. In the model branch the argument mapping is passed as the one
  positional argument of \<^verbatim>\<open>model_construct\<close>, that is as \<^verbatim>\<open>_fields_set\<close>, with no
  keyword. In the other branch only \<open>KeyError\<close> is caught.
\<close>

definition decode_args :: "string \<Rightarrow> output_type \<Rightarrow> pyval \<Rightarrow> py_error + pyval" where
  "decode_args fname output_type v =
     (let use_pydantic = (type_is_type output_type \<and> issubclass_BaseModel output_type)
      in if use_pydantic then model_construct output_type v []
         else
           (case subscript v fname of
              Inr x \<Rightarrow> Inr x
            | Inl (KeyError k) \<Rightarrow>
                (case v of PDict d \<Rightarrow> popitem_value d | _ \<Rightarrow> Inl AttributeError)
            | Inl e \<Rightarrow> Inl e))"

text \<open>
  Lines 115 to 130: what is done with the response. The transcript is touched by the
  last statement only; \<^verbatim>\<open>response['name']\<close> is evaluated before that call.
\<close>

definition decode_response ::
    "pylib \<Rightarrow> string \<Rightarrow> string \<Rightarrow> output_type \<Rightarrow> pyval \<Rightarrow> reasoner \<Rightarrow> pyval outcome" where
  "decode_response lib info_format fname output_type response s1 =
     (case subscript response ''role'' of
        Inl e \<Rightarrow> (Inl e, s1)
      | Inr rl \<Rightarrow>
          if rl \<noteq> PStr ''function'' then
            (case subscript response ''content'' of
               Inl e \<Rightarrow> (Inl e, s1)
             | Inr c \<Rightarrow>
                 (Inl (Exception (''Expected a function call, but got: '' @ py_str lib c)), s1))
          else
            (case subscript response ''args'' of
               Inl e \<Rightarrow> (Inl e, s1)
             | Inr args \<Rightarrow>
                 (case decode_args fname output_type args of
                    Inl e \<Rightarrow> (Inl e, s1)
                  | Inr v \<Rightarrow>
                      (case format_str lib info_format [(fname, v)] of
                         Inl e \<Rightarrow> (Inl e, s1)
                       | Inr info \<Rightarrow>
                           (case subscript response ''name'' of
                              Inl e \<Rightarrow> (Inl e, s1)
                            | Inr nm \<Rightarrow>
                                (Inr v,
                                 add_message ''function''
                                   (PStr (''Stored information: '' @ [CHR 0x22] @ info @
                                          [CHR 0x22]))
                                   nm s1))))))"

text \<open>
  Lines 94 to 114. A template that \<^verbatim>\<open>Formatter.parse\<close> rejects raises before the
  assertion; the assertion passes when exactly one replacement field was found; the
  provider is called when the parameters of the function were built.
\<close>

definition extract_info ::
    "pylib \<Rightarrow> provider \<Rightarrow> string \<Rightarrow> output_type \<Rightarrow> reasoner \<Rightarrow> pyval outcome" where
  "extract_info lib p info_format output_type s =
     (case parse info_format of
        Inl e \<Rightarrow> (Inl e, s)
      | Inr items \<Rightarrow>
          (case parsed_fields items of
             [fname] \<Rightarrow>
               (case schema_params lib fname output_type of
                  Inl e \<Rightarrow> (Inl e, s)
                | Inr params \<Rightarrow>
                    (let (r, s1) = complete p (extract_request info_format fname params s) s
                     in case r of
                          Inl e \<Rightarrow> (Inl e, s1)
                        | Inr response \<Rightarrow>
                            decode_response lib info_format fname output_type response s1))
           | _ \<Rightarrow> (Inl (AssertionError ''Only one format field is allowed.''), s)))"

section \<open>Vocabulary of the statements\<close>

text \<open>The messages the dialogue operations append.\<close>

definition enter_marker :: message where
  "enter_marker =
     \<lparr>role = ''function'', content = PStr ''[Entered Internal Monologue]'',
      name = Some (PStr ''enter_monologue'')\<rparr>"

definition exit_marker :: message where
  "exit_marker =
     \<lparr>role = ''function'', content = PStr ''[Exited Internal Monologue]'',
      name = Some (PStr ''exit_monologue'')\<rparr>"

definition assistant :: "pyval \<Rightarrow> message" where
  "assistant c = \<lparr>role = ''assistant'', content = c, name = None\<rparr>"

text \<open>
  A transition marker is a function-role message named \<^verbatim>\<open>enter_monologue\<close> or
  \<^verbatim>\<open>exit_monologue\<close>. The transcript marks the internal mode when its last
  transition marker is an entry.
\<close>

definition is_enter_marker :: "message \<Rightarrow> bool" where
  "is_enter_marker m = (role m = ''function'' \<and> name m = Some (PStr ''enter_monologue''))"

definition is_exit_marker :: "message \<Rightarrow> bool" where
  "is_exit_marker m = (role m = ''function'' \<and> name m = Some (PStr ''exit_monologue''))"

definition is_marker :: "message \<Rightarrow> bool" where
  "is_marker m = (is_enter_marker m \<or> is_exit_marker m)"

definition last_marker :: "message list \<Rightarrow> message option" where
  "last_marker msgs = List.find is_marker (rev msgs)"

definition marked_internal :: "message list \<Rightarrow> bool" where
  "marked_internal msgs =
     (case last_marker msgs of None \<Rightarrow> False | Some m \<Rightarrow> is_enter_marker m)"

definition enter_count :: "message list \<Rightarrow> nat" where
  "enter_count msgs = length (filter is_enter_marker msgs)"

definition exit_count :: "message list \<Rightarrow> nat" where
  "exit_count msgs = length (filter is_exit_marker msgs)"

text \<open>The invariant: the flag agrees with the transcript.\<close>

definition mode_consistent :: "reasoner \<Rightarrow> bool" where
  "mode_consistent s = (is_internal s = marked_internal (messages s))"

text \<open>
  A sequence of dialogue calls. A call that raised leaves its state behind, and the
  caller may go on with the next call.
\<close>

datatype dialogue_call = InternalMonologue string | ExternalDialogue string

fun run_call :: "provider \<Rightarrow> dialogue_call \<Rightarrow> reasoner \<Rightarrow> reasoner" where
  "run_call p (InternalMonologue thought) s = snd (internal_monologue p thought s)"
| "run_call p (ExternalDialogue thought) s = snd (external_dialogue p thought s)"

fun run_calls :: "provider \<Rightarrow> dialogue_call list \<Rightarrow> reasoner \<Rightarrow> reasoner" where
  "run_calls p [] s = s"
| "run_calls p (c # cs) s = run_calls p cs (run_call p c s)"

text \<open>\<^verbatim>\<open>sub in s\<close> for strings.\<close>

fun contains :: "string \<Rightarrow> string \<Rightarrow> bool" where
  "contains [] sub = (sub = [])"
| "contains (c # cs) sub = (prefix sub (c # cs) \<or> contains cs sub)"

text \<open>
  The specification's wording of the cleaning step of \<^verbatim>\<open>think_internal\<close>: the tag
  is stripped where it is a prefix of the text. It is compared with what
  \<open>internal_monologue\<close> returns.
\<close>

definition spec_strip_tag_prefix :: "string \<Rightarrow> string" where
  "spec_strip_tag_prefix text =
     (if prefix ''[Internal Monologue]: '' text
      then drop (length ''[Internal Monologue]: '') text else text)"

text \<open>
  The field names of a template, and the specification's named placeholders among them:
  the names that are neither empty (\<^verbatim>\<open>{}\<close>) nor a number (\<^verbatim>\<open>{0}\<close>).
\<close>

definition template_fields :: "string \<Rightarrow> py_error + string list" where
  "template_fields f =
     (case parse f of Inl e \<Rightarrow> Inl e | Inr items \<Rightarrow> Inr (parsed_fields items))"

definition spec_named_placeholders :: "string list \<Rightarrow> string list" where
  "spec_named_placeholders names =
     filter (\<lambda>n. n \<noteq> [] \<and> \<not> list_all is_decimal n) names"

text \<open>Stubs for concrete runs: a library record, and providers that answer or raise.\<close>

definition stub_lib :: pylib where
  "stub_lib =
     \<lparr>model_json_schema = (\<lambda>t. Inr (PDict [])),
      single_field_schema = (\<lambda>f t. Inr (PDict [])),
      str_of_object = (\<lambda>v. ''object''),
      repr_of = (\<lambda>v. ''object''),
      ascii_of = (\<lambda>v. ''object''),
      format_with_spec = (\<lambda>kwargs v spec. Inl ''unsupported''),
      resolve_accessors = (\<lambda>v rest. Inl ''unsupported'')\<rparr>"

definition answering :: "pyval \<Rightarrow> provider" where
  "answering response log rq = Inr response"

definition raising :: "string \<Rightarrow> provider" where
  "raising e log rq = Inl e"

definition fresh :: reasoner where
  "fresh = init None ''gpt-4''"

text \<open>Responses of the provider to a forced call: a plain answer, and two function calls.\<close>

definition text_reply :: pyval where
  "text_reply = PDict [(''role'', PStr ''assistant''), (''content'', PStr ''I cannot tell.'')]"

definition age_call :: pyval where
  "age_call =
     PDict [(''role'', PStr ''function''), (''name'', PStr ''remember_age''),
            (''args'', PDict [(''age'', PInt 25)])]"

definition misnamed_call :: pyval where
  "misnamed_call =
     PDict [(''role'', PStr ''function''), (''name'', PStr ''remember_age''),
            (''args'', PDict [(''years'', PInt 25)])]"

text \<open>
  Rendering the parsed items one after the other, and the replacement fields that are a
  plain name: no conversion, no format specification, and a name that is neither empty
  nor a number and has no attribute or index part.
\<close>

fun render_all :: "pylib \<Rightarrow> (string \<times> pyval) list \<Rightarrow> parsed_item list \<Rightarrow> py_error + string" where
  "render_all lib kwargs [] = Inr []"
| "render_all lib kwargs (item # items) =
     (case render_item lib kwargs item of
        Inl e \<Rightarrow> Inl e
      | Inr rendered \<Rightarrow>
          (case render_all lib kwargs items of
             Inl e \<Rightarrow> Inl e
           | Inr out \<Rightarrow> Inr (literal_text item @ rendered @ out)))"

definition plain_name :: "string \<Rightarrow> bool" where
  "plain_name n = (n \<noteq> [] \<and> \<not> list_ex is_accessor_start n \<and> get_integer n = Inr (- 1))"

definition plain_item :: "parsed_item \<Rightarrow> bool" where
  "plain_item item =
     (case field_name item of
        None \<Rightarrow> True
      | Some n \<Rightarrow> plain_name n \<and> conversion item = None \<and> format_spec item = Some [])"

text \<open>The model class of the docstring of \<^verbatim>\<open>extract_info\<close>, and a forced call for it.\<close>

definition Person :: output_type where
  "Person =
     Model ''Person''
       [(''name'', None), (''twitter_handle'', None), (''is_based'', Some (PBool False))]"

definition person_call :: pyval where
  "person_call =
     PDict [(''role'', PStr ''function''), (''name'', PStr ''remember_person''),
            (''args'', PDict [(''name'', PStr ''Ivan Yevenko''),
                              (''twitter_handle'', PStr ''@ivan_yevenko''),
                              (''is_based'', PBool True)])]"

section \<open>Basic facts\<close>

lemma add_message_simps:
  "messages (add_message r m n s) =
     messages s @ [\<lparr>role = r, content = m, name = (if truthy n then Some n else None)\<rparr>]"
  "is_internal (add_message r m n s) = is_internal s"
  "provider_calls (add_message r m n s) = provider_calls s"
  "model (add_message r m n s) = model s"
  by (simp_all add: add_message_def)

lemma internal_begin_messages:
  "messages (internal_monologue_begin thought s) =
     messages s @
     (if is_internal s then [] else [enter_marker, assistant (PStr enter_announcement)]) @
     [assistant (PStr (''[Internal Monologue]: '' @ thought))]"
  by (simp add: internal_monologue_begin_def add_message_simps enter_marker_def assistant_def)

lemma internal_begin_fields:
  "is_internal (internal_monologue_begin thought s) = True"
  "provider_calls (internal_monologue_begin thought s) = provider_calls s"
  "model (internal_monologue_begin thought s) = model s"
  by (simp_all add: internal_monologue_begin_def add_message_simps)

lemma external_begin_messages:
  "messages (external_dialogue_begin thought s) =
     messages s @ assistant (PStr (''[Internal Monologue]: '' @ thought)) #
     (if is_internal s then [assistant (PStr exit_announcement), exit_marker] else [])"
  by (simp add: external_dialogue_begin_def add_message_simps exit_marker_def assistant_def
      Let_def)

lemma external_begin_fields:
  "is_internal (external_dialogue_begin thought s) = False"
  "provider_calls (external_dialogue_begin thought s) = provider_calls s"
  "model (external_dialogue_begin thought s) = model s"
  by (simp_all add: external_dialogue_begin_def add_message_simps Let_def)

text \<open>The three ways \<open>internal_monologue\<close> ends, and the two of \<open>external_dialogue\<close>.\<close>

lemma internal_monologue_cases:
  "internal_monologue p thought s =
     (let b = internal_monologue_begin thought s;
          s3 = b\<lparr>provider_calls := provider_calls s @ [internal_request thought s]\<rparr>
      in case p (provider_calls s) (internal_request thought s) of
           Inl e \<Rightarrow> (Inl (ProviderError e), s3)
         | Inr (PStr text) \<Rightarrow>
             (Inr (PStr (replace text ''[Internal Monologue]: '' [])),
              s3\<lparr>messages := messages b @
                    [assistant (PStr (''[Internal Monologue]: '' @
                                      replace text ''[Internal Monologue]: '' []))]\<rparr>)
         | Inr other \<Rightarrow> (Inl AttributeError, s3))"
  by (simp add: internal_monologue_def complete_def internal_begin_fields add_message_def
      assistant_def Let_def split: sum.splits pyval.splits)

lemma external_dialogue_cases:
  "external_dialogue p thought s =
     (let b = external_dialogue_begin thought s;
          s3 = b\<lparr>provider_calls := provider_calls s @ [external_request thought s]\<rparr>
      in case p (provider_calls s) (external_request thought s) of
           Inl e \<Rightarrow> (Inl (ProviderError e), s3)
         | Inr response \<Rightarrow>
             (Inr response, s3\<lparr>messages := messages b @ [assistant response]\<rparr>))"
  by (simp add: external_dialogue_def complete_def external_begin_fields add_message_def
      assistant_def Let_def split: sum.splits)

lemma internal_monologue_messages:
  "messages (snd (internal_monologue p thought s)) =
     messages (internal_monologue_begin thought s) @
     (case p (provider_calls s) (internal_request thought s) of
        Inr (PStr text) \<Rightarrow>
          [assistant (PStr (''[Internal Monologue]: '' @
                            replace text ''[Internal Monologue]: '' []))]
      | _ \<Rightarrow> [])"
  by (simp add: internal_monologue_cases Let_def split: sum.splits pyval.splits)

lemma external_dialogue_messages:
  "messages (snd (external_dialogue p thought s)) =
     messages (external_dialogue_begin thought s) @
     (case p (provider_calls s) (external_request thought s) of
        Inr response \<Rightarrow> [assistant response]
      | Inl e \<Rightarrow> [])"
  by (simp add: external_dialogue_cases Let_def split: sum.splits)

lemma internal_monologue_mode: "is_internal (snd (internal_monologue p thought s)) = True"
  by (simp add: internal_monologue_cases Let_def internal_begin_fields
      split: sum.splits pyval.splits)

lemma external_dialogue_mode: "is_internal (snd (external_dialogue p thought s)) = False"
  by (simp add: external_dialogue_cases Let_def external_begin_fields split: sum.splits)

text \<open>
  \<open>extract_info\<close> touches the transcript once, at its very end: either the
  transcript is as before, or the call returned and one function-role message was added.
\<close>

lemma extract_info_messages:
  "messages (snd (extract_info lib p f ot s)) = messages s \<or>
   (\<exists>m v. messages (snd (extract_info lib p f ot s)) = messages s @ [m] \<and>
          role m = ''function'' \<and> fst (extract_info lib p f ot s) = Inr v)"
  by (auto simp: extract_info_def decode_response_def complete_def add_message_def Let_def
      split: sum.splits list.splits if_splits)

section \<open>The transcript only grows\<close>

text \<open>
  C9. Every public operation (\<open>add_message\<close>, \<open>external_dialogue\<close>,
  \<open>internal_monologue\<close>, \<open>extract_info\<close>) leaves the messages it found as a prefix
  of the transcript it leaves, whether it returns or raises: messages are appended, never
  reordered, deleted or changed.
\<close>

theorem transcript_append_only:
  "prefix (messages s) (messages (add_message r m n s)) \<and>
   prefix (messages s) (messages (snd (external_dialogue p thought s))) \<and>
   prefix (messages s) (messages (snd (internal_monologue p thought s))) \<and>
   prefix (messages s) (messages (snd (extract_info lib p info_format output_type s)))"
proof (intro conjI)
  show "prefix (messages s) (messages (add_message r m n s))"
    by (simp add: add_message_simps)
  show "prefix (messages s) (messages (snd (external_dialogue p thought s)))"
    by (simp add: external_dialogue_messages external_begin_messages)
  show "prefix (messages s) (messages (snd (internal_monologue p thought s)))"
    by (simp add: internal_monologue_messages internal_begin_messages)
  show "prefix (messages s) (messages (snd (extract_info lib p info_format output_type s)))"
    using extract_info_messages [of lib p info_format output_type s] by auto
qed

section \<open>Mode and markers\<close>


lemma marker_simps:
  "is_enter_marker enter_marker" "\<not> is_exit_marker enter_marker"
  "is_exit_marker exit_marker" "\<not> is_enter_marker exit_marker"
  "\<not> is_enter_marker (assistant c)" "\<not> is_exit_marker (assistant c)"
  "is_marker enter_marker" "is_marker exit_marker" "\<not> is_marker (assistant c)"
  by (simp_all add: is_marker_def is_enter_marker_def is_exit_marker_def enter_marker_def
      exit_marker_def assistant_def)

lemma last_marker_append:
  "last_marker (xs @ ys) = (case last_marker ys of None \<Rightarrow> last_marker xs | Some m \<Rightarrow> Some m)"
  by (induction ys rule: rev_induct) (simp_all add: last_marker_def split: option.splits)

lemma last_marker_simps:
  "last_marker [] = None"
  "last_marker (m # ms) = (case last_marker ms of None \<Rightarrow> (if is_marker m then Some m else None) | Some x \<Rightarrow> Some x)"
  using last_marker_append [of "[m]" ms]
  by (simp_all add: last_marker_def split: option.splits)

lemma marked_internal_append:
  "marked_internal (xs @ ys) = (case last_marker ys of None \<Rightarrow> marked_internal xs | Some m \<Rightarrow> is_enter_marker m)"
  by (simp add: marked_internal_def last_marker_append split: option.splits)

lemma internal_monologue_consistent:
  "mode_consistent s \<Longrightarrow> mode_consistent (snd (internal_monologue p thought s))"
  by (simp add: mode_consistent_def internal_monologue_mode internal_monologue_messages
      internal_begin_messages marked_internal_append last_marker_simps marker_simps
      split: sum.splits pyval.splits)

lemma external_dialogue_consistent:
  "mode_consistent s \<Longrightarrow> mode_consistent (snd (external_dialogue p thought s))"
  by (simp add: mode_consistent_def external_dialogue_mode external_dialogue_messages
      external_begin_messages marked_internal_append last_marker_simps marker_simps
      split: sum.splits)

lemma run_calls_consistent:
  "mode_consistent s \<Longrightarrow> mode_consistent (run_calls p cs s)"
proof (induction cs arbitrary: s)
  case Nil
  then show ?case by simp
next
  case (Cons c cs)
  have "mode_consistent (run_call p c s)"
    using Cons.prems
    by (cases c) (simp_all add: internal_monologue_consistent external_dialogue_consistent)
  then show ?case
    by (simp add: Cons.IH)
qed

lemma init_consistent: "mode_consistent (init system_prompt mdl)"
  by (simp add: mode_consistent_def init_def marked_internal_def last_marker_def
      is_marker_def is_enter_marker_def is_exit_marker_def split: option.splits)

lemma counts_append:
  "enter_count (xs @ ys) = enter_count xs + enter_count ys"
  "exit_count (xs @ ys) = exit_count xs + exit_count ys"
  by (simp_all add: enter_count_def exit_count_def)

lemma counts_simps:
  "enter_count [] = 0" "exit_count [] = 0"
  "enter_count (m # ms) = (if is_enter_marker m then 1 else 0) + enter_count ms"
  "exit_count (m # ms) = (if is_exit_marker m then 1 else 0) + exit_count ms"
  by (simp_all add: enter_count_def exit_count_def)

text \<open>
  C3. After every sequence of \<open>internal_monologue\<close> and \<open>external_dialogue\<close> calls
  on a new reasoner, the mode flag is set exactly when the last transition marker of the
  transcript is an entry marker. \<open>internal_monologue\<close> in internal mode (\<open>si\<close>) and
  \<open>external_dialogue\<close> in external mode (\<open>se\<close>) add no marker; \<open>internal_monologue\<close>
  in external mode adds exactly one entry marker and no exit marker, and
  \<open>external_dialogue\<close> in internal mode exactly one exit marker and no entry marker.
\<close>

theorem mode_marker_invariant:
  assumes "is_internal si" and "\<not> is_internal se"
  shows
    "is_internal (run_calls p cs (init system_prompt mdl)) =
       marked_internal (messages (run_calls p cs (init system_prompt mdl))) \<and>
     enter_count (messages (snd (internal_monologue p thought si))) = enter_count (messages si) \<and>
     exit_count (messages (snd (internal_monologue p thought si))) = exit_count (messages si) \<and>
     exit_count (messages (snd (external_dialogue p thought se))) = exit_count (messages se) \<and>
     enter_count (messages (snd (external_dialogue p thought se))) = enter_count (messages se) \<and>
     enter_count (messages (snd (internal_monologue p thought se))) = enter_count (messages se) + 1 \<and>
     exit_count (messages (snd (internal_monologue p thought se))) = exit_count (messages se) \<and>
     exit_count (messages (snd (external_dialogue p thought si))) = exit_count (messages si) + 1 \<and>
     enter_count (messages (snd (external_dialogue p thought si))) = enter_count (messages si)"
proof -
  have inv: "is_internal (run_calls p cs (init system_prompt mdl)) =
       marked_internal (messages (run_calls p cs (init system_prompt mdl)))"
    using run_calls_consistent [OF init_consistent, of p cs system_prompt mdl]
    by (simp add: mode_consistent_def)
  have int_si: "messages (snd (internal_monologue p thought si)) = messages si @
      assistant (PStr (''[Internal Monologue]: '' @ thought)) #
      (case p (provider_calls si) (internal_request thought si) of
        Inr (PStr text) \<Rightarrow>
          [assistant (PStr (''[Internal Monologue]: '' @
                            replace text ''[Internal Monologue]: '' []))]
      | _ \<Rightarrow> [])"
    using assms(1) by (simp add: internal_monologue_messages internal_begin_messages)
  have int_se: "messages (snd (internal_monologue p thought se)) = messages se @
      enter_marker # assistant (PStr enter_announcement) #
      assistant (PStr (''[Internal Monologue]: '' @ thought)) #
      (case p (provider_calls se) (internal_request thought se) of
        Inr (PStr text) \<Rightarrow>
          [assistant (PStr (''[Internal Monologue]: '' @
                            replace text ''[Internal Monologue]: '' []))]
      | _ \<Rightarrow> [])"
    using assms(2) by (simp add: internal_monologue_messages internal_begin_messages)
  have ext_se: "messages (snd (external_dialogue p thought se)) = messages se @
      assistant (PStr (''[Internal Monologue]: '' @ thought)) #
      (case p (provider_calls se) (external_request thought se) of
        Inr response \<Rightarrow> [assistant response]
      | Inl e \<Rightarrow> [])"
    using assms(2) by (simp add: external_dialogue_messages external_begin_messages)
  have ext_si: "messages (snd (external_dialogue p thought si)) = messages si @
      assistant (PStr (''[Internal Monologue]: '' @ thought)) #
      assistant (PStr exit_announcement) # exit_marker #
      (case p (provider_calls si) (external_request thought si) of
        Inr response \<Rightarrow> [assistant response]
      | Inl e \<Rightarrow> [])"
    using assms(1) by (simp add: external_dialogue_messages external_begin_messages)
  show ?thesis
    unfolding int_si int_se ext_se ext_si
    using inv
    by (simp add: counts_append counts_simps marker_simps split: sum.splits pyval.splits)
qed

text \<open>
  The hypotheses hold for the state after a first monologue and for a new reasoner; a run
  of three calls ends in internal mode with an entry marker last.
\<close>

theorem mode_marker_invariant_witness:
  "is_internal (snd (internal_monologue (answering (PStr ''ok'')) ''plan X'' fresh)) \<and>
   \<not> is_internal fresh \<and>
   is_internal (run_calls (answering (PStr ''ok'')) [InternalMonologue ''plan X'', ExternalDialogue ''say it'', InternalMonologue ''plan Y''] (init None ''gpt-4'')) \<and>
   marked_internal (messages (run_calls (answering (PStr ''ok'')) [InternalMonologue ''plan X'', ExternalDialogue ''say it'', InternalMonologue ''plan Y''] (init None ''gpt-4''))) \<and>
   enter_count (messages (snd (internal_monologue (answering (PStr ''ok'')) ''plan X'' fresh))) = 1 \<and>
   exit_count (messages (snd (external_dialogue (answering (PStr ''ok'')) ''say it'' fresh))) = 0"
proof -
  let ?p = "answering (PStr ''ok'')"
  let ?si = "snd (internal_monologue ?p ''plan X'' fresh)"
  have a: "is_internal ?si" by (simp add: internal_monologue_mode)
  have b: "\<not> is_internal fresh" by (simp add: fresh_def init_def)
  have f: "enter_count (messages fresh) = 0" "exit_count (messages fresh) = 0"
    by (simp_all add: fresh_def init_def enter_count_def exit_count_def)
  note t = mode_marker_invariant [OF a b, of ?p "[InternalMonologue ''plan X'', ExternalDialogue ''say it'', InternalMonologue ''plan Y'']" None "''gpt-4''"]
  have c: "is_internal (run_calls (answering (PStr ''ok'')) [InternalMonologue ''plan X'', ExternalDialogue ''say it'', InternalMonologue ''plan Y''] (init None ''gpt-4''))"
    by (simp add: internal_monologue_mode)
  from t [of "''plan X''"] t [of "''say it''"] a b c f show ?thesis
    by simp
qed

section \<open>Entering the monologue\<close>


text \<open>
  C4, as stated, fails. On a new reasoner the first message \<open>internal_monologue\<close>
  appends is the function-role marker and the second the assistant message explaining
  the entry, not the other way round.
\<close>

theorem internal_monologue_order_counterexample:
  "map role (messages (snd (internal_monologue (answering (PStr ''ok'')) ''plan X'' fresh))) =
     [''function'', ''assistant'', ''assistant'', ''assistant''] \<and>
   \<not> (role (messages (snd (internal_monologue (answering (PStr ''ok'')) ''plan X'' fresh)) ! 0) = ''assistant'' \<and>
      role (messages (snd (internal_monologue (answering (PStr ''ok'')) ''plan X'' fresh)) ! 1) = ''function'')"
  by (simp add: internal_monologue_messages internal_begin_messages fresh_def init_def
      answering_def enter_marker_def assistant_def)

text \<open>
  C4, amended. Called in external mode, \<open>internal_monologue\<close> appends the function-role
  \<^verbatim>\<open>enter_monologue\<close> marker, then the assistant message explaining the entry, then the
  tagged thought: exactly these three messages are new in the transcript sent to the
  provider. When the provider returns a text, the tagged response is the fourth and last
  new message of the call.
\<close>

theorem internal_monologue_entry_messages:
  assumes "\<not> is_internal s"
    and "p (provider_calls s) (internal_request thought s) = Inr (PStr reply)"
  shows
    "rq_messages (internal_request thought s) =
       messages s @ [enter_marker, assistant (PStr enter_announcement),
                     assistant (PStr (''[Internal Monologue]: '' @ thought))] \<and>
     provider_calls (snd (internal_monologue p thought s)) =
       provider_calls s @ [internal_request thought s] \<and>
     messages (snd (internal_monologue p thought s)) =
       messages s @ [enter_marker, assistant (PStr enter_announcement),
                     assistant (PStr (''[Internal Monologue]: '' @ thought)),
                     assistant (PStr (''[Internal Monologue]: '' @
                                      replace reply ''[Internal Monologue]: '' ''''))] \<and>
     length (messages (snd (internal_monologue p thought s))) = length (messages s) + 4"
  using assms
  by (simp add: internal_monologue_cases internal_request_def internal_begin_messages
      internal_begin_fields Let_def)

text \<open>
  The scenario of the claim: \<^verbatim>\<open>plan X\<close> on a new reasoner.
\<close>

theorem internal_monologue_entry_messages_witness:
  "\<not> is_internal fresh \<and>
   messages (snd (internal_monologue (answering (PStr ''ok'')) ''plan X'' fresh)) =
     [enter_marker, assistant (PStr enter_announcement),
      assistant (PStr ''[Internal Monologue]: plan X''),
      assistant (PStr ''[Internal Monologue]: ok'')]"
proof -
  have a: "\<not> is_internal fresh" by (simp add: fresh_def init_def)
  have b: "answering (PStr ''ok'') (provider_calls fresh) (internal_request ''plan X'' fresh) = Inr (PStr ''ok'')"
    by (simp add: answering_def)
  have c: "messages fresh = []" by (simp add: fresh_def init_def)
  from internal_monologue_entry_messages [where s = fresh and p = "answering (PStr ''ok'')" and thought = "''plan X''" and reply = "''ok''", OF a b] a c show ?thesis
    by simp
qed

section \<open>Cleaning the response\<close>


lemma contains_Nil: "contains s []"
  by (cases s) simp_all

lemma replace_no_occurrence: "\<not> contains s old \<Longrightarrow> replace s old new = s"
proof (induction s)
  case Nil
  then show ?case by simp
next
  case (Cons c cs)
  from Cons.prems have "old \<noteq> []"
    using contains_Nil [of "c # cs"] by auto
  with Cons show ?case by simp
qed

lemma replace_prefix: "old \<noteq> [] \<Longrightarrow> replace (old @ rest) old new = new @ replace rest old new"
  by (cases old) simp_all

text \<open>
  C6, as stated, fails. A response with the tag inside and not in front has no tag prefix
  to strip, so the specification's cleaning leaves it as it is; \<open>internal_monologue\<close>
  removes the tag there too and returns a different text.
\<close>

theorem internal_monologue_cleaning_counterexample:
  "fst (internal_monologue (answering (PStr ''a[Internal Monologue]: b'')) ''plan X'' fresh) =
     Inr (PStr ''ab'') \<and>
   spec_strip_tag_prefix ''a[Internal Monologue]: b'' = ''a[Internal Monologue]: b'' \<and>
   fst (internal_monologue (answering (PStr ''a[Internal Monologue]: b'')) ''plan X'' fresh) \<noteq>
     Inr (PStr (spec_strip_tag_prefix ''a[Internal Monologue]: b''))"
  by (simp add: internal_monologue_cases answering_def spec_strip_tag_prefix_def Let_def)

text \<open>
  C6, amended. For every response text, \<open>internal_monologue\<close> returns the text with the
  occurrences of the tag removed (\<^verbatim>\<open>str.replace\<close>, one pass from the left) and appends
  it, tagged, as an assistant message. A text without the tag is returned unchanged; of a
  text that starts with the tag the prefix is dropped and the rest is cleaned in the same
  way.
\<close>

theorem internal_monologue_cleaning:
  assumes "p (provider_calls s) (internal_request thought s) = Inr (PStr reply)"
  shows
    "fst (internal_monologue p thought s) = Inr (PStr (replace reply ''[Internal Monologue]: '' '''')) \<and>
     messages (snd (internal_monologue p thought s)) =
       messages (internal_monologue_begin thought s) @
       [assistant (PStr (''[Internal Monologue]: '' @ replace reply ''[Internal Monologue]: '' ''''))] \<and>
     (\<not> contains reply ''[Internal Monologue]: '' \<longrightarrow>
        fst (internal_monologue p thought s) = Inr (PStr reply)) \<and>
     (reply = ''[Internal Monologue]: '' @ rest \<longrightarrow>
        fst (internal_monologue p thought s) = Inr (PStr (replace rest ''[Internal Monologue]: '' '''')))"
proof -
  have r: "fst (internal_monologue p thought s) = Inr (PStr (replace reply ''[Internal Monologue]: '' ''''))"
    using assms by (simp add: internal_monologue_cases Let_def)
  have m: "messages (snd (internal_monologue p thought s)) =
       messages (internal_monologue_begin thought s) @
       [assistant (PStr (''[Internal Monologue]: '' @ replace reply ''[Internal Monologue]: '' ''''))]"
    using assms by (simp add: internal_monologue_messages)
  have pre: "replace (''[Internal Monologue]: '' @ rest) ''[Internal Monologue]: '' '''' =
      replace rest ''[Internal Monologue]: '' ''''"
    using replace_prefix [of "''[Internal Monologue]: ''" rest "''''"] by simp
  show ?thesis
    using r m pre by (auto simp: replace_no_occurrence)
qed

text \<open>
  Two responses on a new reasoner: one with the tag in front, one without the tag.
\<close>

theorem internal_monologue_cleaning_witness:
  "fst (internal_monologue (answering (PStr ''[Internal Monologue]: ok'')) ''plan X'' fresh) = Inr (PStr ''ok'') \<and>
   \<not> contains ''fine'' ''[Internal Monologue]: '' \<and>
   fst (internal_monologue (answering (PStr ''fine'')) ''plan X'' fresh) = Inr (PStr ''fine'')"
proof -
  have a: "answering (PStr ''[Internal Monologue]: ok'') (provider_calls fresh) (internal_request ''plan X'' fresh) = Inr (PStr ''[Internal Monologue]: ok'')"
    by (simp add: answering_def)
  have b: "answering (PStr ''fine'') (provider_calls fresh) (internal_request ''plan X'' fresh) = Inr (PStr ''fine'')"
    by (simp add: answering_def)
  have c: "\<not> contains ''fine'' ''[Internal Monologue]: ''"
    by simp
  from internal_monologue_cleaning [where p = "answering (PStr ''[Internal Monologue]: ok'')" and s = fresh and thought = "''plan X''" and reply = "''[Internal Monologue]: ok''" and rest = "''ok''", OF a]
    internal_monologue_cleaning [where p = "answering (PStr ''fine'')" and s = fresh and thought = "''plan X''" and reply = "''fine''" and rest = "''''", OF b] c
  show ?thesis by simp
qed

section \<open>Failures and the transcript\<close>

lemma extract_info_calls:
  "provider_calls (snd (extract_info lib p f ot s)) = provider_calls s \<or>
   (\<exists>rq. provider_calls (snd (extract_info lib p f ot s)) = provider_calls s @ [rq] \<and>
         rq_messages rq = messages s)"
  by (auto simp: extract_info_def decode_response_def complete_def add_message_def
      extract_request_def Let_def split: sum.splits list.splits if_splits)

lemma extract_info_failure: 
  "fst (extract_info lib p f ot s) = Inl e \<Longrightarrow> messages (snd (extract_info lib p f ot s)) = messages s"
  using extract_info_messages [of lib p f ot s] by auto

text \<open>
  C10. When \<open>extract_info\<close> raises, wherever it does, the transcript is as it was before
  the call, and the request it may have sent carried that transcript. When the provider
  raises in \<open>internal_monologue\<close> or \<open>external_dialogue\<close>, the exception passes through
  and the thought and marker messages appended before the call stay in the transcript.
\<close>

theorem failure_and_transcript:
  "(fst (extract_info lib p info_format output_type s) = Inl e \<longrightarrow>
      messages (snd (extract_info lib p info_format output_type s)) = messages s) \<and>
   (provider_calls (snd (extract_info lib p info_format output_type s)) = provider_calls s \<or>
    (\<exists>rq. provider_calls (snd (extract_info lib p info_format output_type s)) =
             provider_calls s @ [rq] \<and> rq_messages rq = messages s)) \<and>
   (p1 (provider_calls s1) (internal_request thought1 s1) = Inl m1 \<longrightarrow>
      fst (internal_monologue p1 thought1 s1) = Inl (ProviderError m1) \<and>
      messages (snd (internal_monologue p1 thought1 s1)) =
        messages s1 @
        (if is_internal s1 then [] else [enter_marker, assistant (PStr enter_announcement)]) @
        [assistant (PStr (''[Internal Monologue]: '' @ thought1))]) \<and>
   (p2 (provider_calls s2) (external_request thought2 s2) = Inl m2 \<longrightarrow>
      fst (external_dialogue p2 thought2 s2) = Inl (ProviderError m2) \<and>
      messages (snd (external_dialogue p2 thought2 s2)) =
        messages s2 @ assistant (PStr (''[Internal Monologue]: '' @ thought2)) #
        (if is_internal s2 then [assistant (PStr exit_announcement), exit_marker] else []))"
proof (intro conjI impI)
  assume "fst (extract_info lib p info_format output_type s) = Inl e"
  then show "messages (snd (extract_info lib p info_format output_type s)) = messages s"
    by (rule extract_info_failure)
next
  show "provider_calls (snd (extract_info lib p info_format output_type s)) = provider_calls s \<or>
      (\<exists>rq. provider_calls (snd (extract_info lib p info_format output_type s)) =
               provider_calls s @ [rq] \<and> rq_messages rq = messages s)"
    by (rule extract_info_calls)
next
  assume a: "p1 (provider_calls s1) (internal_request thought1 s1) = Inl m1"
  then show "fst (internal_monologue p1 thought1 s1) = Inl (ProviderError m1)"
    by (simp add: internal_monologue_cases Let_def)
  from a show "messages (snd (internal_monologue p1 thought1 s1)) =
        messages s1 @
        (if is_internal s1 then [] else [enter_marker, assistant (PStr enter_announcement)]) @
        [assistant (PStr (''[Internal Monologue]: '' @ thought1))]"
    by (simp add: internal_monologue_messages internal_begin_messages)
next
  assume a: "p2 (provider_calls s2) (external_request thought2 s2) = Inl m2"
  then show "fst (external_dialogue p2 thought2 s2) = Inl (ProviderError m2)"
    by (simp add: external_dialogue_cases Let_def)
  from a show "messages (snd (external_dialogue p2 thought2 s2)) =
        messages s2 @ assistant (PStr (''[Internal Monologue]: '' @ thought2)) #
        (if is_internal s2 then [assistant (PStr exit_announcement), exit_marker] else [])"
    by (simp add: external_dialogue_messages external_begin_messages)
qed

lemma parse_answer:
  "parse ''Done? {answer}'' =
     Inr [\<lparr>literal_text = ''Done? '', field_name = Some ''answer'', format_spec = Some [],
           conversion = None\<rparr>]"
  by (simp add: parse.simps markup_next_def is_brace_def parse_field_def)

text \<open>
  A provider that always raises, on a new reasoner.
\<close>

theorem failure_and_transcript_witness:
  "fst (extract_info stub_lib (raising ''timeout'') ''Done? {answer}'' (Plain TBool) fresh) =
     Inl (ProviderError ''timeout'') \<and>
   messages (snd (extract_info stub_lib (raising ''timeout'') ''Done? {answer}'' (Plain TBool) fresh)) = [] \<and>
   messages (snd (internal_monologue (raising ''timeout'') ''plan X'' fresh)) =
     [enter_marker, assistant (PStr enter_announcement), assistant (PStr ''[Internal Monologue]: plan X'')] \<and>
   messages (snd (external_dialogue (raising ''timeout'') ''say it'' fresh)) =
     [assistant (PStr ''[Internal Monologue]: say it'')]"
proof -
  have a: "fst (extract_info stub_lib (raising ''timeout'') ''Done? {answer}'' (Plain TBool) fresh) =
     Inl (ProviderError ''timeout'')"
    by (simp add: extract_info_def parse_answer parsed_fields_def schema_params_def
        create_model_schema_def stub_lib_def complete_def raising_def)
  have b: "raising ''timeout'' (provider_calls fresh) (internal_request ''plan X'' fresh) =
      Inl ''timeout''"
    by (simp add: raising_def)
  have c: "raising ''timeout'' (provider_calls fresh) (external_request ''say it'' fresh) =
      Inl ''timeout''"
    by (simp add: raising_def)
  have f: "messages fresh = []" "\<not> is_internal fresh"
    by (simp_all add: fresh_def init_def)
  from failure_and_transcript [where lib = stub_lib and p = "raising ''timeout''"
      and info_format = "''Done? {answer}''" and output_type = "Plain TBool" and s = fresh
      and e = "ProviderError ''timeout''"
      and ?p1.0 = "raising ''timeout''" and ?s1.0 = fresh and ?thought1.0 = "''plan X''"
      and ?m1.0 = "''timeout''"
      and ?p2.0 = "raising ''timeout''" and ?s2.0 = fresh and ?thought2.0 = "''say it''"
      and ?m2.0 = "''timeout''"] a b c f
  show ?thesis by simp
qed

section \<open>The assertion on the template\<close>

lemma extract_info_one_field:
  assumes "parse f = Inr items" and "parsed_fields items = [fname]"
    and "schema_params lib fname ot = Inr params"
  shows "extract_info lib p f ot s =
     (case p (provider_calls s) (extract_request f fname params s) of
        Inl e \<Rightarrow>
          (Inl (ProviderError e),
           s\<lparr>provider_calls := provider_calls s @ [extract_request f fname params s]\<rparr>)
      | Inr response \<Rightarrow>
          decode_response lib f fname ot response
            (s\<lparr>provider_calls := provider_calls s @ [extract_request f fname params s]\<rparr>))"
  using assms by (simp add: extract_info_def complete_def split: sum.splits)

text \<open>When line 104 raises, the exception leaves \<open>extract_info\<close> and nothing else happened.\<close>

lemma extract_info_schema_error:
  assumes "parse f = Inr items" and "parsed_fields items = [fname]"
    and "schema_params lib fname ot = Inl e"
  shows "extract_info lib p f ot s = (Inl e, s)"
  using assms by (simp add: extract_info_def)

lemma extract_info_not_one_field:
  assumes "parse f = Inr items" and "length (parsed_fields items) \<noteq> 1"
  shows "extract_info lib p f ot s = (Inl (AssertionError ''Only one format field is allowed.''), s)"
  using assms by (auto simp: extract_info_def split: list.splits)

lemma decode_response_calls:
  "provider_calls (snd (decode_response lib f fname ot response s1)) = provider_calls s1"
  by (simp add: decode_response_def add_message_simps split: sum.splits)

lemma schema_params_error: "schema_params lib fname ot = Inl e \<Longrightarrow> e \<noteq> AssertionError m"
  by (auto simp: schema_params_def create_model_schema_def Let_def split: if_splits sum.splits)

lemma get_integer_from_error: "get_integer_from acc s = Inl e \<Longrightarrow> e = ValueError"
  by (induction acc s rule: get_integer_from.induct) (auto simp: Let_def split: if_splits)

lemma get_field_object_error:
  "get_field_object lib kwargs fname = Inl e \<Longrightarrow> e \<noteq> AssertionError m"
  by (auto simp: get_field_object_def get_integer_def Let_def
      split: sum.splits if_splits option.splits dest: get_integer_from_error)

lemma render_item_error: "render_item lib kwargs item = Inl e \<Longrightarrow> e \<noteq> AssertionError m"
  by (auto simp: render_item_def do_conversion_def
      split: option.splits sum.splits if_splits dest: get_field_object_error)

lemma scan_format_spec_error: "scan_format_spec n acc s = Inl e \<Longrightarrow> e = ValueError"
  by (induction n acc s rule: scan_format_spec.induct) (auto split: if_splits)

lemma scan_field_name_error: "scan_field_name acc s = Inl e \<Longrightarrow> e = ValueError"
  by (induction acc s rule: scan_field_name.induct) (auto split: if_splits)

lemma parse_field_error: "parse_field s = Inl e \<Longrightarrow> e = ValueError"
  by (auto simp: parse_field_def split: sum.splits prod.splits if_splits list.splits
      dest: scan_format_spec_error scan_field_name_error)

lemma markup_next_error: "markup_next s = Inl e \<Longrightarrow> e = ValueError"
  by (auto simp: markup_next_def Let_def split: if_splits list.splits sum.splits prod.splits
      dest: parse_field_error)

lemma format_str_error: "format_str lib s kwargs = Inl e \<Longrightarrow> e \<noteq> AssertionError m"
proof (induction lib s kwargs rule: format_str.induct)
  case (1 lib s kwargs)
  show ?case
  proof (cases "markup_next s")
    case (Inl e')
    with "1.prems" show ?thesis
      by (auto simp: format_str.simps [of lib s kwargs] dest: markup_next_error)
  next
    case (Inr r)
    show ?thesis
    proof (cases r)
      case None
      with Inr "1.prems" show ?thesis
        by (simp add: format_str.simps [of lib s kwargs])
    next
      case (Some ir)
      obtain item rest where ir: "ir = (item, rest)" by (cases ir)
      show ?thesis
      proof (cases "render_item lib kwargs item")
        case (Inl e')
        with Inr Some ir "1.prems" show ?thesis
          by (auto simp: format_str.simps [of lib s kwargs] dest: render_item_error)
      next
        case rendered: (Inr out)
        have unfolded: "format_str lib s kwargs =
            (case format_str lib rest kwargs of
               Inl e' \<Rightarrow> Inl e'
             | Inr later \<Rightarrow> Inr (literal_text item @ out @ later))"
          by (subst format_str.simps) (simp add: Inr Some ir rendered)
        with "1.prems" have "format_str lib rest kwargs = Inl e"
          by (simp split: sum.splits)
        with "1.IH" Inr Some ir rendered show ?thesis
          by blast
      qed
    qed
  qed
qed

lemma decode_args_error: "decode_args fname ot v = Inl e \<Longrightarrow> e \<noteq> AssertionError m"
  by (cases ot; cases v)
     (auto simp: decode_args_def popitem_value_def
      split: sum.splits option.splits if_splits py_error.splits)

lemma subscript_error: "subscript v k = Inl e \<Longrightarrow> e \<noteq> AssertionError m"
  by (cases v) (auto split: option.splits)

lemma decode_response_error:
  "fst (decode_response lib f fname ot response s1) \<noteq> Inl (AssertionError m)"
  by (auto simp: decode_response_def split: sum.splits if_splits
      dest: subscript_error decode_args_error format_str_error)

text \<open>
  A template that \<^verbatim>\<open>Formatter.parse\<close> rejects (a lone brace, an unclosed field) has
  no list of fields to count: \<open>extract_info\<close> raises the parser's \<open>ValueError\<close>,
  before the assertion and before any provider call.
\<close>

lemma parse_error: "parse s = Inl e \<Longrightarrow> e = ValueError"
proof (induction s rule: parse.induct)
  case (1 s)
  show ?case
  proof (cases "markup_next s")
    case (Inl e')
    with "1.prems" show ?thesis
      by (auto simp: parse.simps [of s] dest: markup_next_error)
  next
    case (Inr r)
    show ?thesis
    proof (cases r)
      case None
      with Inr "1.prems" show ?thesis
        by (simp add: parse.simps [of s])
    next
      case (Some ir)
      obtain item rest where ir: "ir = (item, rest)" by (cases ir)
      from "1.prems" Inr Some ir have "parse rest = Inl e"
        by (subst (asm) parse.simps) (simp split: sum.splits)
      with "1.IH" Inr Some ir show ?thesis
        by blast
    qed
  qed
qed

lemma extract_info_rejected_template:
  "parse f = Inl e \<Longrightarrow> extract_info lib p f ot s = (Inl ValueError, s)"
  using parse_error [of f e] by (simp add: extract_info_def)

text \<open>The templates of the concrete runs.\<close>

lemma parse_no_field:
  "parse ''No field here.'' =
     Inr [\<lparr>literal_text = ''No field here.'', field_name = None, format_spec = None,
           conversion = None\<rparr>]"
  by (simp add: parse.simps markup_next_def is_brace_def parse_field_def)

lemma parse_two_fields:
  "parse ''{a} and {b}'' =
     Inr [\<lparr>literal_text = '''', field_name = Some ''a'', format_spec = Some [],
           conversion = None\<rparr>,
          \<lparr>literal_text = '' and '', field_name = Some ''b'', format_spec = Some [],
           conversion = None\<rparr>]"
  by (simp add: parse.simps markup_next_def is_brace_def parse_field_def)

lemma parse_age:
  "parse ''The user is {age} years old.'' =
     Inr [\<lparr>literal_text = ''The user is '', field_name = Some ''age'', format_spec = Some [],
           conversion = None\<rparr>,
          \<lparr>literal_text = '' years old.'', field_name = None, format_spec = None,
           conversion = None\<rparr>]"
  by (simp add: parse.simps markup_next_def is_brace_def parse_field_def)

lemma parse_empty_field:
  "parse ''{}'' =
     Inr [\<lparr>literal_text = '''', field_name = Some '''', format_spec = Some [],
           conversion = None\<rparr>]"
  by (simp add: parse.simps markup_next_def is_brace_def parse_field_def)

lemma parse_mixed_fields:
  "parse ''{} {age}'' =
     Inr [\<lparr>literal_text = '''', field_name = Some '''', format_spec = Some [],
           conversion = None\<rparr>,
          \<lparr>literal_text = '' '', field_name = Some ''age'', format_spec = Some [],
           conversion = None\<rparr>]"
  by (simp add: parse.simps markup_next_def is_brace_def parse_field_def)

lemma parse_base_field:
  "parse ''{__base__}'' =
     Inr [\<lparr>literal_text = '''', field_name = Some ''__base__'', format_spec = Some [],
           conversion = None\<rparr>]"
  by (simp add: parse.simps markup_next_def is_brace_def parse_field_def)

lemma parse_lone_brace: "parse ''}'' = Inl ValueError"
  by (simp add: parse.simps markup_next_def is_brace_def)

lemma str_int_25: "str_int 25 = ''25''"
  by (simp add: str_int_def str_nat.simps digit_char_def)

lemma format_age:
  "format_str lib ''The user is {age} years old.'' [(''age'', PInt 25)] =
     Inr ''The user is 25 years old.''"
  by (simp add: format_str.simps markup_next_def is_brace_def parse_field_def render_item_def
      get_field_object_def get_integer_def is_decimal_def is_accessor_start_def do_conversion_def
      str_int_25)

lemma format_empty_field: "format_str lib ''{}'' [('''', v)] = Inl IndexError"
  by (simp add: format_str.simps markup_next_def is_brace_def parse_field_def render_item_def
      get_field_object_def get_integer_def)

lemma stub_schema: "schema_params stub_lib fname (Plain t) =
    (if fname = ''__base__'' then Inl TypeError
     else if fname = ''model_config'' then Inl (LibraryError ''model_config'')
     else Inr (PDict []))"
  by (cases t) (simp_all add: schema_params_def create_model_schema_def stub_lib_def)

text \<open>
  C2, as stated, fails. The template \<^verbatim>\<open>{}\<close> has no named placeholder, yet the
  assertion passes, the provider is called and the call ends in the \<open>IndexError\<close> of
  \<^verbatim>\<open>str.format\<close>. The template \<^verbatim>\<open>{} {age}\<close> has exactly one named placeholder, yet
  the assertion fails. Line 95 counts every replacement field, named or not.
\<close>

theorem usage_error_counterexample:
  "template_fields ''{}'' = Inr [''''] \<and>
   spec_named_placeholders [''''] = [] \<and>
   fst (extract_info stub_lib (answering age_call) ''{}'' (Plain TInt) fresh) = Inl IndexError \<and>
   length (provider_calls
             (snd (extract_info stub_lib (answering age_call) ''{}'' (Plain TInt) fresh))) = 1 \<and>
   template_fields ''{} {age}'' = Inr ['''', ''age''] \<and>
   spec_named_placeholders ['''', ''age''] = [''age''] \<and>
   extract_info stub_lib (answering age_call) ''{} {age}'' (Plain TInt) fresh =
     (Inl (AssertionError ''Only one format field is allowed.''), fresh)"
proof -
  have one: "parsed_fields
      [\<lparr>literal_text = '''', field_name = Some '''', format_spec = Some [],
        conversion = None\<rparr>] = ['''']"
    by (simp add: parsed_fields_def)
  have two: "parsed_fields
      [\<lparr>literal_text = '''', field_name = Some '''', format_spec = Some [],
        conversion = None\<rparr>,
       \<lparr>literal_text = '' '', field_name = Some ''age'', format_spec = Some [],
        conversion = None\<rparr>] = ['''', ''age'']"
    by (simp add: parsed_fields_def)
  have sch: "schema_params stub_lib '''' (Plain TInt) = Inr (PDict [])"
    by (simp add: stub_schema)
  have dec: "decode_args '''' (Plain TInt) (PDict [(''age'', PInt 25)]) = Inr (PInt 25)"
    by (simp add: decode_args_def popitem_value_def)
  have a: "fst (extract_info stub_lib (answering age_call) ''{}'' (Plain TInt) fresh) =
      Inl IndexError"
    using dec
    by (simp add: extract_info_one_field [OF parse_empty_field one sch] answering_def
        age_call_def decode_response_def format_empty_field)
  have b: "length (provider_calls
             (snd (extract_info stub_lib (answering age_call) ''{}'' (Plain TInt) fresh))) = 1"
    by (simp add: extract_info_one_field [OF parse_empty_field one sch] answering_def
        decode_response_calls fresh_def init_def)
  have c: "extract_info stub_lib (answering age_call) ''{} {age}'' (Plain TInt) fresh =
     (Inl (AssertionError ''Only one format field is allowed.''), fresh)"
    by (simp add: extract_info_def parse_mixed_fields two)
  have d: "\<not> list_all is_decimal ''age''"
    by (simp add: is_decimal_def)
  from a b c d one two show ?thesis
    by (simp add: template_fields_def parse_empty_field parse_mixed_fields
        spec_named_placeholders_def)
qed

text \<open>
  C2, amended. The placeholders counted are the replacement fields of the template, named,
  numbered or empty: the tuples of \<^verbatim>\<open>Formatter.parse\<close> that have a field name. A
  template with zero or with two or more of them (\<open>f0\<close>) makes \<open>extract_info\<close> fail
  with the assertion error and leaves the state as it was: no message was appended and no
  request was sent. A template with exactly one (\<open>f1\<close>) never ends in an assertion
  error.
\<close>

theorem usage_error_before_provider:
  assumes "parse f0 = Inr items0" and "length (parsed_fields items0) \<noteq> 1"
    and "parse f1 = Inr items1" and "length (parsed_fields items1) = 1"
  shows
    "extract_info lib p f0 output_type s =
       (Inl (AssertionError ''Only one format field is allowed.''), s) \<and>
     fst (extract_info lib p f1 output_type s) \<noteq> Inl (AssertionError m)"
proof -
  from assms(4) obtain fname where one: "parsed_fields items1 = [fname]"
    by (cases "parsed_fields items1") auto
  have a: "extract_info lib p f0 output_type s =
       (Inl (AssertionError ''Only one format field is allowed.''), s)"
    using assms(1,2) by (rule extract_info_not_one_field)
  have b: "fst (extract_info lib p f1 output_type s) \<noteq> Inl (AssertionError m)"
  proof (cases "schema_params lib fname output_type")
    case (Inl e)
    then show ?thesis
      using schema_params_error [of lib fname output_type e m]
      by (simp add: extract_info_schema_error [OF assms(3) one Inl])
  next
    case (Inr params)
    then show ?thesis
      by (simp add: extract_info_one_field [OF assms(3) one Inr] decode_response_error
          split: sum.splits)
  qed
  from a b show ?thesis by simp
qed

text \<open>Templates with no field, with two fields and with one field.\<close>

theorem usage_error_before_provider_witness:
  "parse ''No field here.'' \<noteq> Inl ValueError \<and>
   extract_info stub_lib (answering person_call) ''No field here.'' (Plain TInt) fresh =
     (Inl (AssertionError ''Only one format field is allowed.''), fresh) \<and>
   extract_info stub_lib (answering person_call) ''{a} and {b}'' (Plain TInt) fresh =
     (Inl (AssertionError ''Only one format field is allowed.''), fresh) \<and>
   fst (extract_info stub_lib (answering person_call) ''Done? {answer}'' (Plain TInt) fresh) \<noteq>
     Inl (AssertionError ''Only one format field is allowed.'')"
proof -
  have zero: "length (parsed_fields
      [\<lparr>literal_text = ''No field here.'', field_name = None, format_spec = None,
        conversion = None\<rparr>]) \<noteq> 1"
    by (simp add: parsed_fields_def)
  have two: "length (parsed_fields
      [\<lparr>literal_text = '''', field_name = Some ''a'', format_spec = Some [],
        conversion = None\<rparr>,
       \<lparr>literal_text = '' and '', field_name = Some ''b'', format_spec = Some [],
        conversion = None\<rparr>]) \<noteq> 1"
    by (simp add: parsed_fields_def)
  have one: "length (parsed_fields
      [\<lparr>literal_text = ''Done? '', field_name = Some ''answer'', format_spec = Some [],
        conversion = None\<rparr>]) = 1"
    by (simp add: parsed_fields_def)
  from usage_error_before_provider [OF parse_no_field zero parse_answer one,
      of stub_lib "answering person_call" "Plain TInt" fresh]
    usage_error_before_provider [OF parse_two_fields two parse_answer one,
      of stub_lib "answering person_call" "Plain TInt" fresh]
    parse_no_field
  show ?thesis by simp
qed

section \<open>The forced function call\<close>

text \<open>
  C8, as stated, fails. The template \<^verbatim>\<open>{__base__}\<close> has exactly one placeholder, but
  \<^verbatim>\<open>create_model\<close> takes the keyword for its own parameter and raises: \<open>extract_info\<close>
  ends in \<open>TypeError\<close> and no request was sent.
\<close>

theorem forced_call_counterexample:
  "template_fields ''{__base__}'' = Inr [''__base__''] \<and>
   extract_info stub_lib (answering age_call) ''{__base__}'' (Plain TInt) fresh =
     (Inl TypeError, fresh) \<and>
   provider_calls fresh = []"
proof -
  have one: "parsed_fields
      [\<lparr>literal_text = '''', field_name = Some ''__base__'', format_spec = Some [],
        conversion = None\<rparr>] = [''__base__'']"
    by (simp add: parsed_fields_def)
  have sch: "schema_params stub_lib ''__base__'' (Plain TInt) = Inl TypeError"
    by (simp add: stub_schema)
  from extract_info_schema_error [OF parse_base_field one sch] one show ?thesis
    by (simp add: template_fields_def parse_base_field fresh_def init_def)
qed

text \<open>
  C8, amended. For a template with exactly one replacement field for which the parameters
  of the function can be built (line 104 does not raise), \<open>extract_info\<close> sends exactly
  one request, against the transcript as it is; its options are a single function schema
  named \<^verbatim>\<open>remember_<field_name>\<close> and the directive to call the function of that name.
  When the response is a message whose role is not \<^verbatim>\<open>function\<close>, the call fails with
  the exception that carries the content of the response. When the parameters cannot be
  built, the exception of line 104 leaves \<open>extract_info\<close> and no request is sent
  (\<open>extract_info_schema_error\<close>).
\<close>

theorem forced_single_function_call:
  assumes "parse info_format = Inr items" and "parsed_fields items = [fname]"
    and "schema_params lib fname output_type = Inr params"
  shows
    "provider_calls (snd (extract_info lib p info_format output_type s)) =
       provider_calls s @ [extract_request info_format fname params s] \<and>
     rq_messages (extract_request info_format fname params s) = messages s \<and>
     rq_functions (extract_request info_format fname params s) =
       Some [json_schema_of info_format fname params] \<and>
     subscript (json_schema_of info_format fname params) ''name'' =
       Inr (PStr (''remember_'' @ fname)) \<and>
     rq_function_call (extract_request info_format fname params s) =
       Some (PDict [(''name'', PStr (''remember_'' @ fname))]) \<and>
     (p (provider_calls s) (extract_request info_format fname params s) = Inr (PDict d) \<and>
      map_of d ''role'' = Some rl \<and> rl \<noteq> PStr ''function'' \<and> map_of d ''content'' = Some c \<longrightarrow>
        fst (extract_info lib p info_format output_type s) =
          Inl (Exception (''Expected a function call, but got: '' @ py_str lib c)))"
proof (intro conjI impI)
  show "provider_calls (snd (extract_info lib p info_format output_type s)) =
       provider_calls s @ [extract_request info_format fname params s]"
    by (simp add: extract_info_one_field [OF assms] decode_response_calls split: sum.splits)
  show "rq_messages (extract_request info_format fname params s) = messages s"
    by (simp add: extract_request_def)
  show "rq_functions (extract_request info_format fname params s) =
       Some [json_schema_of info_format fname params]"
    by (simp add: extract_request_def)
  show "subscript (json_schema_of info_format fname params) ''name'' =
       Inr (PStr (''remember_'' @ fname))"
    by (simp add: json_schema_of_def func_name_of_def)
  show "rq_function_call (extract_request info_format fname params s) =
       Some (PDict [(''name'', PStr (''remember_'' @ fname))])"
    by (simp add: extract_request_def func_name_of_def)
next
  assume "p (provider_calls s) (extract_request info_format fname params s) = Inr (PDict d) \<and>
      map_of d ''role'' = Some rl \<and> rl \<noteq> PStr ''function'' \<and> map_of d ''content'' = Some c"
  then show "fst (extract_info lib p info_format output_type s) =
          Inl (Exception (''Expected a function call, but got: '' @ py_str lib c))"
    by (simp add: extract_info_one_field [OF assms] decode_response_def)
qed

text \<open>A provider that answers in prose instead of calling the function.\<close>

theorem forced_single_function_call_witness:
  "parsed_fields
     [\<lparr>literal_text = ''Done? '', field_name = Some ''answer'', format_spec = Some [],
       conversion = None\<rparr>] = [''answer''] \<and>
   schema_params stub_lib ''answer'' (Plain TBool) = Inr (PDict []) \<and>
   rq_function_call (extract_request ''Done? {answer}'' ''answer'' (PDict []) fresh) =
     Some (PDict [(''name'', PStr ''remember_answer'')]) \<and>
   length (provider_calls
             (snd (extract_info stub_lib (answering text_reply) ''Done? {answer}''
                     (Plain TBool) fresh))) = 1 \<and>
   fst (extract_info stub_lib (answering text_reply) ''Done? {answer}'' (Plain TBool) fresh) =
     Inl (Exception ''Expected a function call, but got: I cannot tell.'')"
proof -
  have one: "parsed_fields
     [\<lparr>literal_text = ''Done? '', field_name = Some ''answer'', format_spec = Some [],
       conversion = None\<rparr>] = [''answer'']"
    by (simp add: parsed_fields_def)
  have sch: "schema_params stub_lib ''answer'' (Plain TBool) = Inr (PDict [])"
    by (simp add: stub_schema)
  have r: "answering text_reply (provider_calls fresh)
        (extract_request ''Done? {answer}'' ''answer'' (PDict []) fresh) =
      Inr (PDict [(''role'', PStr ''assistant''), (''content'', PStr ''I cannot tell.'')]) \<and>
      map_of [(''role'', PStr ''assistant''), (''content'', PStr ''I cannot tell.'')] ''role'' =
        Some (PStr ''assistant'') \<and>
      PStr ''assistant'' \<noteq> PStr ''function'' \<and>
      map_of [(''role'', PStr ''assistant''), (''content'', PStr ''I cannot tell.'')] ''content'' =
        Some (PStr ''I cannot tell.'')"
    by (simp add: answering_def text_reply_def)
  have f: "provider_calls fresh = []"
    by (simp add: fresh_def init_def)
  from forced_single_function_call [OF parse_answer one sch,
      where p = "answering text_reply" and s = fresh
      and d = "[(''role'', PStr ''assistant''), (''content'', PStr ''I cannot tell.'')]"
      and rl = "PStr ''assistant''" and c = "PStr ''I cannot tell.''"] r one sch f
  show ?thesis by simp
qed

section \<open>Decoding and recording\<close>


lemma format_str_parse:
  "parse s = Inr items \<Longrightarrow> format_str lib s kwargs = render_all lib kwargs items"
proof (induction s arbitrary: items rule: parse.induct)
  case (1 s)
  show ?case
  proof (cases "markup_next s")
    case (Inl e)
    with "1.prems" show ?thesis
      by (simp add: parse.simps [of s])
  next
    case (Inr r)
    show ?thesis
    proof (cases r)
      case None
      with Inr "1.prems" show ?thesis
        by (auto simp: parse.simps [of s] format_str.simps [of lib s kwargs])
    next
      case (Some ir)
      obtain item rest where ir: "ir = (item, rest)" by (cases ir)
      from "1.prems" Inr Some ir obtain items' where
        rest: "parse rest = Inr items'" and items: "items = item # items'"
        by (subst (asm) parse.simps) (auto split: sum.splits)
      from "1.IH" [OF Inr Some ir [symmetric] rest]
      have "format_str lib rest kwargs = render_all lib kwargs items'" .
      then show ?thesis
        by (subst format_str.simps) (simp add: Inr Some ir items split: sum.splits)
    qed
  qed
qed

lemma render_item_plain:
  assumes "plain_item item" and "field_name item = Some n"
  shows "render_item lib [(n, v)] item = Inr (py_str lib v)"
proof -
  from assms have pn: "plain_name n" and cv: "conversion item = None"
    and sp: "format_spec item = Some []"
    by (simp_all add: plain_item_def)
  from pn have tw: "takeWhile (\<lambda>c. \<not> is_accessor_start c) n = n"
    and dw: "dropWhile (\<lambda>c. \<not> is_accessor_start c) n = []"
    by (auto simp: plain_name_def list_ex_iff takeWhile_eq_all_conv)
  from pn have "get_field_object lib [(n, v)] n = Inr v"
    by (simp add: get_field_object_def tw dw plain_name_def)
  then show ?thesis
    by (simp add: render_item_def assms(2) cv sp do_conversion_def)
qed

lemma parsed_fields_member:
  "parsed_fields items = [fname] \<Longrightarrow> item \<in> set items \<Longrightarrow> field_name item = Some n \<Longrightarrow> n = fname"
proof -
  assume a: "parsed_fields items = [fname]" and b: "item \<in> set items" and c: "field_name item = Some n"
  from b c have "n \<in> set (parsed_fields items)"
    by (force simp: parsed_fields_def List.map_filter_def)
  with a show ?thesis by simp
qed

lemma render_all_plain:
  assumes "\<And>item n. item \<in> set items \<Longrightarrow> field_name item = Some n \<Longrightarrow> n = fname"
    and "list_all plain_item items"
  shows "\<exists>info. render_all lib [(fname, v)] items = Inr info"
  using assms
proof (induction items)
  case Nil
  then show ?case by simp
next
  case (Cons item items)
  from Cons.prems have "\<exists>info. render_all lib [(fname, v)] items = Inr info"
    by (intro Cons.IH) auto
  then obtain out where out: "render_all lib [(fname, v)] items = Inr out" ..
  have "\<exists>rendered. render_item lib [(fname, v)] item = Inr rendered"
  proof (cases "field_name item")
    case None
    then show ?thesis by (simp add: render_item_def)
  next
    case (Some n)
    with Cons.prems(1) [of item n] have "n = fname" by simp
    with Some Cons.prems(2) show ?thesis
      using render_item_plain [of item fname lib v] by simp
  qed
  with out show ?case by auto
qed

lemma format_str_plain:
  assumes "parse info_format = Inr items" and "parsed_fields items = [fname]"
    and "list_all plain_item items"
  shows "\<exists>info. format_str lib info_format [(fname, v)] = Inr info"
  using render_all_plain [of items fname lib v] parsed_fields_member [OF assms(2)] assms(3)
  by (simp add: format_str_parse [OF assms(1)])

text \<open>
  C5. For every type that is not a model class: when the function response has a single
  argument and its key is not the field name, \<open>extract_info\<close> returns the value of that
  argument and records it. The hypotheses name the call that is made (the parameters of
  the function were built, and the provider answered the request with a function call)
  and say that the template can be rendered with the value; by \<open>format_str_plain\<close>
  the latter holds whenever the replacement field is a plain name.
\<close>

theorem fallback_on_mismatched_key:
  assumes "parse info_format = Inr items" and "parsed_fields items = [fname]"
    and "schema_params lib fname (Plain t) = Inr params"
    and "p (provider_calls s) (extract_request info_format fname params s) = Inr (PDict d)"
    and "map_of d ''role'' = Some (PStr ''function'')"
    and "map_of d ''args'' = Some (PDict [(k, v)])" and "k \<noteq> fname"
    and "map_of d ''name'' = Some nm"
    and "format_str lib info_format [(fname, v)] = Inr info"
  shows
    "fst (extract_info lib p info_format (Plain t) s) = Inr v \<and>
     messages (snd (extract_info lib p info_format (Plain t) s)) =
       messages s @
       [\<lparr>role = ''function'',
         content = PStr (''Stored information: '' @ [CHR 0x22] @ info @ [CHR 0x22]),
         name = (if truthy nm then Some nm else None)\<rparr>]"
proof -
  have use: "\<not> (type_is_type (Plain t) \<and> issubclass_BaseModel (Plain t))"
    by simp
  have dec: "decode_args fname (Plain t) (PDict [(k, v)]) = Inr v"
    using assms(7) by (simp add: decode_args_def popitem_value_def)
  show ?thesis
    using assms(4,5,6,8,9) dec
    by (simp add: extract_info_one_field [OF assms(1,2,3)] decode_response_def
        add_message_simps)
qed

text \<open>
  The provider names the argument \<^verbatim>\<open>years\<close> where \<^verbatim>\<open>age\<close> was asked for.
\<close>

theorem fallback_on_mismatched_key_witness:
  "''years'' \<noteq> ''age'' \<and>
   fst (extract_info stub_lib (answering misnamed_call) ''The user is {age} years old.''
          (Plain TInt) fresh) = Inr (PInt 25) \<and>
   messages (snd (extract_info stub_lib (answering misnamed_call) ''The user is {age} years old.''
          (Plain TInt) fresh)) =
     [\<lparr>role = ''function'',
       content = PStr (''Stored information: '' @ [CHR 0x22] @ ''The user is 25 years old.'' @ [CHR 0x22]),
       name = Some (PStr ''remember_age'')\<rparr>]"
proof -
  have one: "parsed_fields
     [\<lparr>literal_text = ''The user is '', field_name = Some ''age'', format_spec = Some [], conversion = None\<rparr>,
      \<lparr>literal_text = '' years old.'', field_name = None, format_spec = None, conversion = None\<rparr>] = [''age'']"
    by (simp add: parsed_fields_def)
  have sch: "schema_params stub_lib ''age'' (Plain TInt) = Inr (PDict [])"
    by (simp add: stub_schema)
  have r: "answering misnamed_call (provider_calls fresh)
      (extract_request ''The user is {age} years old.'' ''age'' (PDict []) fresh) =
      Inr (PDict [(''role'', PStr ''function''), (''name'', PStr ''remember_age''),
            (''args'', PDict [(''years'', PInt 25)])])"
    by (simp add: answering_def misnamed_call_def)
  have k: "''years'' \<noteq> ''age''" by simp
  have f: "messages fresh = []" by (simp add: fresh_def init_def)
  have d: "map_of [(''role'', PStr ''function''), (''name'', PStr ''remember_age''),
                   (''args'', PDict [(''years'', PInt 25)])] ''role'' = Some (PStr ''function'')"
    "map_of [(''role'', PStr ''function''), (''name'', PStr ''remember_age''),
             (''args'', PDict [(''years'', PInt 25)])] ''args'' = Some (PDict [(''years'', PInt 25)])"
    "map_of [(''role'', PStr ''function''), (''name'', PStr ''remember_age''),
             (''args'', PDict [(''years'', PInt 25)])] ''name'' = Some (PStr ''remember_age'')"
    by simp_all
  from fallback_on_mismatched_key [where p = "answering misnamed_call" and s = fresh
      and lib = stub_lib, OF parse_age one sch r d(1) d(2) k d(3) format_age] k f
  show ?thesis by simp
qed

text \<open>
  C7. \<^verbatim>\<open>extract_info("The user is {age} years old.", int)\<close>, when the provider returns
  a function call with the arguments \<^verbatim>\<open>{"age": 25}\<close>, returns 25 and appends the
  function-role message \<^verbatim>\<open>Stored information: "The user is 25 years old."\<close> under the
  function name of the response. The first hypothesis says that the parameters of the
  function were built, the second names the request that is then sent.
\<close>

theorem extract_age_scenario:
  assumes "schema_params lib ''age'' (Plain TInt) = Inr params"
    and "p (provider_calls s)
           (extract_request ''The user is {age} years old.'' ''age'' params s) =
         Inr (PDict d)"
    and "map_of d ''role'' = Some (PStr ''function'')"
    and "map_of d ''args'' = Some (PDict [(''age'', PInt 25)])"
    and "map_of d ''name'' = Some (PStr nm)" and "nm \<noteq> []"
  shows
    "fst (extract_info lib p ''The user is {age} years old.'' (Plain TInt) s) = Inr (PInt 25) \<and>
     messages (snd (extract_info lib p ''The user is {age} years old.'' (Plain TInt) s)) =
       messages s @
       [\<lparr>role = ''function'',
         content = PStr (''Stored information: '' @ [CHR 0x22] @ ''The user is 25 years old.'' @
                         [CHR 0x22]),
         name = Some (PStr nm)\<rparr>]"
proof -
  have one: "parsed_fields
     [\<lparr>literal_text = ''The user is '', field_name = Some ''age'', format_spec = Some [], conversion = None\<rparr>,
      \<lparr>literal_text = '' years old.'', field_name = None, format_spec = None, conversion = None\<rparr>] = [''age'']"
    by (simp add: parsed_fields_def)
  have dec: "decode_args ''age'' (Plain TInt) (PDict [(''age'', PInt 25)]) = Inr (PInt 25)"
    by (simp add: decode_args_def)
  show ?thesis
    using assms(2-) dec
    by (simp add: extract_info_one_field [OF parse_age one assms(1)] decode_response_def
        format_age add_message_simps)
qed

text \<open>
  The stubbed provider of the scenario, on a new reasoner.
\<close>

theorem extract_age_scenario_witness:
  "fst (extract_info stub_lib (answering age_call) ''The user is {age} years old.'' (Plain TInt) fresh) = Inr (PInt 25) \<and>
   ''remember_age'' \<noteq> '''' \<and>
   messages (snd (extract_info stub_lib (answering age_call) ''The user is {age} years old.'' (Plain TInt) fresh)) =
     [\<lparr>role = ''function'',
       content = PStr (''Stored information: '' @ [CHR 0x22] @ ''The user is 25 years old.'' @ [CHR 0x22]),
       name = Some (PStr ''remember_age'')\<rparr>]"
proof -
  have sch: "schema_params stub_lib ''age'' (Plain TInt) = Inr (PDict [])"
    by (simp add: stub_schema)
  have r: "answering age_call (provider_calls fresh)
      (extract_request ''The user is {age} years old.'' ''age'' (PDict []) fresh) =
      Inr (PDict [(''role'', PStr ''function''), (''name'', PStr ''remember_age''),
            (''args'', PDict [(''age'', PInt 25)])])"
    by (simp add: answering_def age_call_def)
  have n: "''remember_age'' \<noteq> ''''" by simp
  have f: "messages fresh = []" by (simp add: fresh_def init_def)
  have d: "map_of [(''role'', PStr ''function''), (''name'', PStr ''remember_age''),
                   (''args'', PDict [(''age'', PInt 25)])] ''role'' = Some (PStr ''function'')"
    "map_of [(''role'', PStr ''function''), (''name'', PStr ''remember_age''),
             (''args'', PDict [(''age'', PInt 25)])] ''args'' = Some (PDict [(''age'', PInt 25)])"
    "map_of [(''role'', PStr ''function''), (''name'', PStr ''remember_age''),
             (''args'', PDict [(''age'', PInt 25)])] ''name'' = Some (PStr ''remember_age'')"
    by simp_all
  from extract_age_scenario [where p = "answering age_call" and s = fresh and lib = stub_lib,
      OF sch r d n] n f
  show ?thesis by simp
qed

text \<open>No class passes the test of line 100: the model branch is dead.\<close>

lemma use_pydantic_never: "\<not> (type_is_type output_type \<and> issubclass_BaseModel output_type)"
  by (cases output_type) simp_all

lemma parse_person: "parse ''Added {person} to the database.'' =
   Inr [\<lparr>literal_text = ''Added '', field_name = Some ''person'', format_spec = Some [], conversion = None\<rparr>,
        \<lparr>literal_text = '' to the database.'', field_name = None, format_spec = None, conversion = None\<rparr>]"
  by (simp add: parse.simps markup_next_def is_brace_def parse_field_def)

lemma format_person: "format_str lib ''Added {person} to the database.'' [(''person'', PBool True)] = Inr ''Added True to the database.''"
  by (simp add: format_str.simps markup_next_def is_brace_def parse_field_def render_item_def
      get_field_object_def get_integer_def is_decimal_def is_accessor_start_def do_conversion_def)

text \<open>
  C1 does not hold of the code. On the example of the docstring, with arguments that
  match the fields of \<^verbatim>\<open>Person\<close>, the model branch is not taken, the field name
  \<^verbatim>\<open>person\<close> is not a key, and the fallback returns the value of the last argument,
  whatever parameters line 104 built for the function. The
  call of \<^verbatim>\<open>model_construct\<close> in the model branch, with the mapping in the place of
  \<^verbatim>\<open>_fields_set\<close>, would give an instance that holds the default only.
\<close>

theorem docstring_person_example:
  "fst (extract_info lib (answering person_call) ''Added {person} to the database.'' Person s) =
     (case schema_params lib ''person'' Person of
        Inl e \<Rightarrow> Inl e
      | Inr params \<Rightarrow> Inr (PBool True)) \<and>
   fst (extract_info stub_lib (answering person_call) ''Added {person} to the database.''
          Person fresh) = Inr (PBool True) \<and>
   model_construct Person
     (PDict [(''name'', PStr ''Ivan Yevenko''), (''twitter_handle'', PStr ''@ivan_yevenko''),
             (''is_based'', PBool True)]) [] =
     Inr (PObj ''Person'' [(''is_based'', PBool False)])"
proof -
  have one: "parsed_fields
     [\<lparr>literal_text = ''Added '', field_name = Some ''person'', format_spec = Some [], conversion = None\<rparr>,
      \<lparr>literal_text = '' to the database.'', field_name = None, format_spec = None, conversion = None\<rparr>] = [''person'']"
    by (simp add: parsed_fields_def)
  have dec: "decode_args ''person'' Person
      (PDict [(''name'', PStr ''Ivan Yevenko''), (''twitter_handle'', PStr ''@ivan_yevenko''),
              (''is_based'', PBool True)]) = Inr (PBool True)"
    by (simp add: decode_args_def Person_def popitem_value_def)
  have a: "fst (extract_info lib (answering person_call) ''Added {person} to the database.''
                 Person s) =
     (case schema_params lib ''person'' Person of
        Inl e \<Rightarrow> Inl e
      | Inr params \<Rightarrow> Inr (PBool True))" for lib s
  proof (cases "schema_params lib ''person'' Person")
    case (Inl e)
    then show ?thesis
      by (simp add: extract_info_schema_error [OF parse_person one Inl])
  next
    case (Inr params)
    then show ?thesis
      using dec
      by (simp add: extract_info_one_field [OF parse_person one Inr] answering_def
          person_call_def decode_response_def format_person)
  qed
  have sch: "schema_params stub_lib ''person'' Person = Inr (PDict [])"
    by (simp add: schema_params_def create_model_schema_def stub_lib_def Person_def)
  have c: "fst (extract_info stub_lib (answering person_call)
                 ''Added {person} to the database.'' Person fresh) = Inr (PBool True)"
    by (simp add: a sch)
  have b: "model_construct Person
     (PDict [(''name'', PStr ''Ivan Yevenko''), (''twitter_handle'', PStr ''@ivan_yevenko''),
             (''is_based'', PBool True)]) [] =
     Inr (PObj ''Person'' [(''is_based'', PBool False)])"
    by (simp add: Person_def List.map_filter_simps)
  from a b c show ?thesis by simp
qed

end
